theory Spec2Isabelle
  imports Main "HOL-Library.AList"
begin

section \<open>Python values used by the connection code\<close>

text \<open>
  Text is modelled as \<^typ>\<open>string\<close>, one \<^typ>\<open>char\<close> per code point below 256.
  A value that may be \<open>None\<close> is an \<^typ>\<open>'a option\<close>. A call into a collaborator
  (asyncio, the transport, a socket) that the source wraps in \<open>try\<close>/\<open>except\<close> yields an
  \<open>outcome\<close>: it raises with a message, or it returns.
\<close>

datatype 'a outcome = Raises string | Returns 'a

text \<open>Truth value of an \<open>Optional[str]\<close>: \<open>None\<close> and the empty text are false.\<close>

definition truthy :: "string option \<Rightarrow> bool" where
  "truthy v = (case v of None \<Rightarrow> False | Some a \<Rightarrow> a \<noteq> [])"

text \<open>\<open>a or b\<close> for a text \<open>a\<close> and an optional text \<open>b\<close>.\<close>

definition str_or :: "string \<Rightarrow> string option \<Rightarrow> string option" where
  "str_or a b = (if a \<noteq> [] then Some a else b)"

text \<open>\<open>b or "Unknown"\<close> for an optional text \<open>b\<close>.\<close>

definition or_Unknown :: "string option \<Rightarrow> string" where
  "or_Unknown b = (case b of None \<Rightarrow> ''Unknown'' | Some a \<Rightarrow> if a \<noteq> [] then a else ''Unknown'')"

text \<open>How an f-string prints an optional text and a boolean.\<close>

definition str_of :: "string option \<Rightarrow> string" where
  "str_of v = (case v of None \<Rightarrow> ''None'' | Some a \<Rightarrow> a)"

definition str_of_bool :: "bool \<Rightarrow> string" where
  "str_of_bool b = (if b then ''True'' else ''False'')"

text \<open>\<open>str.isspace\<close> on the code points below 256, and \<open>str.strip()\<close>.\<close>

definition isspace :: "char \<Rightarrow> bool" where
  "isspace c = (c \<in> set [CHR 0x09, CHR 0x0A, CHR 0x0B, CHR 0x0C, CHR 0x0D,
                           CHR 0x1C, CHR 0x1D, CHR 0x1E, CHR 0x1F, CHR 0x20,
                           CHR 0x85, CHR 0xA0])"

definition strip :: "string \<Rightarrow> string" where
  "strip t = rev (dropWhile isspace (rev (dropWhile isspace t)))"

text \<open>
  \<open>QLineEdit.setText\<close>: the line edit keeps its default \<open>maxLength\<close> of 32767 and
  cuts longer text at that length; \<open>text()\<close> returns what was kept.
\<close>

definition setText :: "string \<Rightarrow> string" where
  "setText t = take 32767 t"

section \<open>Collaborators and observable effects\<close>

text \<open>The coroutines the window hands to the background loop.\<close>

datatype coroutine =
    ConnectAsync string "string option"
  | TransportClose
  | ButtonPress string
  | ButtonRelease string

datatype level = Debug | Info | Warning | Error

text \<open>
  What the window does to the outside, in program order: log records, modal boxes, deferred
  calls, work handed to the loop or to a worker thread, and signals emitted.
\<close>

datatype effect =
    Log level string
  | MessageBoxCritical string string
  | PairedSwitchDialogExec
  | ConnectionLostBoxExec
  | SingleShot nat string
  | RunCoroutineThreadsafe coroutine
  | WorkerStart coroutine
  | FutureCancel
  | WorkerQuit
  | WorkerWait
  | Emit bool string

text \<open>The asyncio event loop, as far as the source reads it.\<close>

record Loop =
  is_running :: bool
  is_closed :: bool

text \<open>
  \<open>AsyncWorker\<close>: \<open>worker_loop\<close> is \<open>self.async_loop\<close> (in the state the loop has when
  it is read), \<open>future_set\<close> says whether \<open>self.future\<close> is no longer \<open>None\<close>.
\<close>

record AsyncWorker =
  worker_loop :: "Loop option"
  coro :: coroutine
  future_set :: bool
  isRunning :: bool

text \<open>
  The transport: \<open>is_closing\<close> is the outcome of \<open>is_closing()\<close>; \<open>itr_sock\<close> is
  \<open>None\<close> when the object has no attribute \<open>_itr_sock\<close>, and otherwise holds the
  outcome of \<open>_itr_sock.getpeername()\<close> (a false value as \<open>None\<close>, a pair of address and
  channel otherwise).
\<close>

record Transport =
  is_closing :: "bool outcome"
  itr_sock :: "(string \<times> nat) option outcome option"

text \<open>The protocol: whether \<open>protocol.transport\<close> is not \<open>None\<close>.\<close>

record Protocol =
  has_transport :: bool

datatype ControllerState = ControllerState

record ControllerButton =
  button_name :: string
  is_controller_pressed :: bool

text \<open>What a closed \<open>PairedSwitchDialog\<close> reports.\<close>

record PairedSwitchDialog =
  accepted :: bool
  start_fresh :: bool
  selected_address :: "string option"

section \<open>The window \<open>JoyControlGUI\<close>\<close>

text \<open>
  The fields of \<open>JoyControlGUI\<close> that the connection code reads or writes. Dictionaries
  are association lists in insertion order; a label or line edit is its text, a timer is
  whether it is active. Style sheets are left out. \<open>euid\<close> is what \<open>os.geteuid()\<close>
  returns; \<open>effects\<close> records what the window has done to the outside so far.
\<close>

record GUI =
  controller_state :: "ControllerState option"
  transport :: "Transport option"
  protocol :: "Protocol option"
  connected :: bool
  reconnect_address :: "string option"
  last_connected_address :: "string option"
  button_widgets :: "(string \<times> ControllerButton) list"
  button_states :: "(string \<times> bool) list"
  current_amiibo :: "string option"
  async_loop :: "Loop option"
  connection_worker :: "AsyncWorker option"
  connection_monitor_timer :: bool
  reconnect_entry :: string
  connection_info :: string
  connect_btn_text :: string
  connect_btn_enabled :: bool
  status_label :: string
  amiibo_status :: string
  amiibo_btn_text :: string
  euid :: nat
  effects :: "effect list"

definition emit :: "effect list \<Rightarrow> GUI \<Rightarrow> GUI" where
  "emit es s = s\<lparr>effects := effects s @ es\<rparr>"

subsection \<open>Buttons\<close>

definition set_controller_pressed :: "bool \<Rightarrow> ControllerButton \<Rightarrow> ControllerButton" where
  "set_controller_pressed pressed b = b\<lparr>is_controller_pressed := pressed\<rparr>"

definition create_button :: "string \<Rightarrow> GUI \<Rightarrow> GUI" where
  "create_button name s =
     s\<lparr>button_widgets :=
          AList.update name \<lparr>button_name = name, is_controller_pressed = False\<rparr> (button_widgets s),
       button_states := AList.update name False (button_states s)\<rparr>"

definition create_pro_controller_layout :: "GUI \<Rightarrow> GUI" where
  "create_pro_controller_layout s =
     fold create_button
       [''up'', ''left'', ''right'', ''down'', ''minus'', ''home'', ''plus'', ''capture'',
        ''x'', ''y'', ''b'', ''a'', ''l'', ''zl'', ''l_stick'', ''r_stick'', ''r'', ''zr''] s"

definition create_controller_layout :: "GUI \<Rightarrow> GUI" where
  "create_controller_layout s = create_pro_controller_layout (s\<lparr>button_widgets := [], button_states := []\<rparr>)"

text \<open>
  \<open>__init__\<close>, given the effective user id and the loop that the background thread has
  created (\<open>None\<close> if it has not). Its last statement schedules the startup dialog.
\<close>

definition init :: "nat \<Rightarrow> Loop option \<Rightarrow> GUI" where
  "init uid loop =
     emit [SingleShot 100 ''show_startup_dialog'']
      (create_controller_layout
       \<lparr>controller_state = None, transport = None, protocol = None, connected = False,
        reconnect_address = None, last_connected_address = None,
        button_widgets = [], button_states = [], current_amiibo = None,
        async_loop = loop, connection_worker = None, connection_monitor_timer = False,
        reconnect_entry = [], connection_info = ''Click Connect to choose your Nintendo Switch'',
        connect_btn_text = ''Connect'', connect_btn_enabled = True,
        status_label = ''Disconnected'', amiibo_status = ''No amiibo loaded'',
        amiibo_btn_text = ''Load Amiibo'', euid = uid, effects = []\<rparr>)"

definition update_amiibo_button :: "GUI \<Rightarrow> GUI" where
  "update_amiibo_button s =
     (if truthy (current_amiibo s) then s\<lparr>amiibo_btn_text := ''Eject Amiibo''\<rparr>
      else s\<lparr>amiibo_btn_text := ''Load Amiibo''\<rparr>)"

subsection \<open>The runtime bridge\<close>

text \<open>
  \<open>AsyncWorker.run\<close>. The parameter is what \<open>asyncio.run_coroutine_threadsafe\<close> followed
  by \<open>future.result()\<close> does once the guard has let the coroutine through: it returns, it
  raises, or it never returns (\<open>None\<close>). The value is the list of effects of \<open>run\<close>, or
  \<open>None\<close> when \<open>run\<close> does not return.
\<close>

definition AsyncWorker_run :: "AsyncWorker \<Rightarrow> unit outcome option \<Rightarrow> effect list option" where
  "AsyncWorker_run w result =
     (if (case worker_loop w of None \<Rightarrow> False | Some l \<Rightarrow> \<not> is_closed l) then
        (case result of
           None \<Rightarrow> None
         | Some (Returns _) \<Rightarrow> Some [Emit True ''Success'']
         | Some (Raises e) \<Rightarrow> Some [Log Error (''AsyncWorker error: '' @ e), Emit False e])
      else Some [Emit False ''Async loop not available''])"

text \<open>
  \<open>run_async\<close>: the future returned (named by its coroutine) or \<open>None\<close>.
  \<open>run_coroutine_threadsafe\<close> raises \<open>RuntimeError\<close> on a closed loop.
\<close>

definition run_async :: "coroutine \<Rightarrow> GUI \<Rightarrow> string + GUI \<times> coroutine option" where
  "run_async c s =
     (case async_loop s of
        Some l \<Rightarrow>
          if is_closed l then Inl ''Event loop is closed''
          else Inr (emit [RunCoroutineThreadsafe c] s, Some c)
      | None \<Rightarrow> Inr (s, None))"

subsection \<open>Connecting\<close>

definition reset_connection_ui :: "GUI \<Rightarrow> GUI" where
  "reset_connection_ui s =
     s\<lparr>connect_btn_text := ''Connect'', connect_btn_enabled := True,
       connection_info := ''Click Connect to choose your Nintendo Switch''\<rparr>"

text \<open>
  \<open>connect\<close> and \<open>show_connection_dialog\<close> call each other. The first argument lists what
  the dialogs shown from here on report, in order; when it is used up a dialog counts as
  dismissed.
\<close>

fun connect :: "PairedSwitchDialog list \<Rightarrow> bool \<Rightarrow> GUI \<Rightarrow> GUI"
  and show_connection_dialog :: "PairedSwitchDialog list \<Rightarrow> GUI \<Rightarrow> GUI" where
  "connect ds fresh s =
     (if euid s \<noteq> 0 then
        emit [MessageBoxCritical ''Error'' ''This application must be run as root!''] s
      else if \<not> truthy (str_or (strip (reconnect_entry s)) (reconnect_address s)) \<and> \<not> fresh then
        show_connection_dialog ds s
      else
        (let reconnect_addr = str_or (strip (reconnect_entry s)) (reconnect_address s);
             controller_type = ''PRO_CONTROLLER'';
             final_reconnect_addr = (if fresh then None else reconnect_addr);
             connection_coro = ConnectAsync controller_type final_reconnect_addr
         in emit [Log Info (''Starting connection. Start fresh: '' @ str_of_bool fresh
                            @ '', Reconnect addr: '' @ str_of final_reconnect_addr),
                  WorkerStart connection_coro]
              (s\<lparr>connect_btn_text := ''Connecting...'', connect_btn_enabled := False,
                 status_label := ''Connecting...'',
                 connection_worker :=
                   Some \<lparr>worker_loop = async_loop s, coro = connection_coro,
                         future_set = False, isRunning = True\<rparr>\<rparr>)))"
| "show_connection_dialog [] s = emit [PairedSwitchDialogExec] s"
| "show_connection_dialog (dialog # ds) s =
     (if accepted dialog then
        (if start_fresh dialog then
           connect ds True
             (emit [PairedSwitchDialogExec] s\<lparr>reconnect_address := None, reconnect_entry := setText []\<rparr>)
         else
           (case selected_address dialog of
              Some a \<Rightarrow>
                if a \<noteq> [] then
                  connect ds False
                    (emit [PairedSwitchDialogExec] s
                       \<lparr>reconnect_address := Some a, reconnect_entry := setText a\<rparr>)
                else emit [PairedSwitchDialogExec] s
            | None \<Rightarrow> emit [PairedSwitchDialogExec] s))
      else emit [PairedSwitchDialogExec] s)"

declare connect.simps [simp del]
declare show_connection_dialog.simps [simp del]

text \<open>
  \<open>show_startup_dialog\<close>, the deferred call scheduled by \<open>__init__\<close>. Unlike
  \<open>show_connection_dialog\<close> it leaves the entry alone when a fresh pairing is chosen.
\<close>

definition show_startup_dialog :: "PairedSwitchDialog list \<Rightarrow> GUI \<Rightarrow> GUI" where
  "show_startup_dialog ds s =
     (case ds of
        [] \<Rightarrow> emit [PairedSwitchDialogExec] s
      | dialog # rest \<Rightarrow>
          if accepted dialog then
            (if start_fresh dialog then
               connect rest True (emit [PairedSwitchDialogExec] s\<lparr>reconnect_address := None\<rparr>)
             else
               (case selected_address dialog of
                  Some a \<Rightarrow>
                    if a \<noteq> [] then
                      connect rest False
                        (emit [PairedSwitchDialogExec] s
                           \<lparr>reconnect_address := Some a, reconnect_entry := setText a\<rparr>)
                    else emit [PairedSwitchDialogExec] s
                | None \<Rightarrow> emit [PairedSwitchDialogExec] s))
          else emit [PairedSwitchDialogExec] s)"

text \<open>
  \<open>_connect_async\<close>, run on the background loop. Its arguments are the outcomes of
  \<open>create_hid_server\<close> and of \<open>controller_state.connect()\<close>; it returns the window and
  whether the coroutine itself returned or raised.
\<close>

definition connect_async :: "(Transport \<times> Protocol) outcome \<Rightarrow> unit outcome \<Rightarrow> GUI \<Rightarrow> GUI \<times> unit outcome" where
  "connect_async hid_server state_connect s =
     (case hid_server of
        Raises e \<Rightarrow> (emit [Log Error (''Async connection error: '' @ e)] s, Raises e)
      | Returns (t, p) \<Rightarrow>
          (let s1 = s\<lparr>transport := Some t, protocol := Some p,
                       controller_state := Some ControllerState\<rparr>
           in case state_connect of
                Raises e \<Rightarrow> (emit [Log Error (''Async connection error: '' @ e)] s1, Raises e)
              | Returns _ \<Rightarrow> (s1\<lparr>connected := True\<rparr>, Returns ())))"

text \<open>
  \<open>on_connection_finished\<close>, the slot of the worker's \<open>finished\<close> signal. The peer
  address is read inside \<open>try\<close>; the \<open>finally\<close> clause drops the worker.
\<close>

definition on_connection_finished :: "bool \<Rightarrow> string \<Rightarrow> GUI \<Rightarrow> GUI" where
  "on_connection_finished success message s =
     (if success then
        (let s1 = s\<lparr>status_label := ''Connected'', connect_btn_text := ''Disconnect'',
                     connect_btn_enabled := True\<rparr>;
             (addr, s2) =
               (case transport s1 of
                  Some t \<Rightarrow>
                    (case itr_sock t of
                       Some (Returns peer_info) \<Rightarrow>
                         (case peer_info of
                            Some (a, psm) \<Rightarrow> (a, s1)
                          | None \<Rightarrow> (or_Unknown (reconnect_address s1), s1))
                     | Some (Raises e) \<Rightarrow>
                         (or_Unknown (reconnect_address s1),
                          emit [Log Debug (''Could not get peer address: '' @ e)] s1)
                     | None \<Rightarrow> (or_Unknown (reconnect_address s1), s1))
                | None \<Rightarrow> (or_Unknown (reconnect_address s1), s1));
             s3 = (if addr \<noteq> ''Unknown'' then
                     emit [Log Info (''Stored address for auto-reconnect: '' @ addr)]
                       (s2\<lparr>last_connected_address := Some addr\<rparr>)
                   else s2);
             s4 = s3\<lparr>connection_info := ''Connected to: '' @ addr,
                       connection_monitor_timer := True\<rparr>
         in (update_amiibo_button s4)\<lparr>connection_worker := None\<rparr>)
      else
        (reset_connection_ui
           (emit [Log Error (''Connection failed: '' @ message),
                  MessageBoxCritical ''Connection Failed'' message] s))
          \<lparr>connection_worker := None\<rparr>)"

subsection \<open>Disconnecting and losing the connection\<close>

text \<open>
  \<open>disconnect\<close>. Everything runs inside \<open>try\<close>: when \<open>run_async\<close> raises, the rest
  is skipped and the error is logged.
\<close>

definition disconnect :: "GUI \<Rightarrow> GUI" where
  "disconnect s =
     (let s1 = s\<lparr>connection_monitor_timer := False\<rparr>;
          s2 = (case connection_worker s1 of
                  Some w \<Rightarrow>
                    if isRunning w then
                      emit ((if future_set w then [FutureCancel] else []) @ [WorkerQuit, WorkerWait]) s1
                    else s1
                | None \<Rightarrow> s1)
      in case (if transport s2 \<noteq> None then run_async TransportClose s2 else Inr (s2, None)) of
           Inl e \<Rightarrow> emit [Log Error (''Disconnect error: '' @ e)] s2
         | Inr (s3, _) \<Rightarrow>
             (reset_connection_ui
                (s3\<lparr>connected := False, controller_state := None, transport := None,
                    protocol := None, connection_worker := None,
                    reconnect_address := None, reconnect_entry := setText [],
                    last_connected_address := None\<rparr>))
               \<lparr>status_label := ''Disconnected'',
                connection_info := ''Click Connect to choose your Nintendo Switch''\<rparr>)"

text \<open>The loop over \<open>button_widgets.items()\<close> at the end of \<open>handle_connection_lost\<close>.\<close>

fun release_buttons :: "(string \<times> ControllerButton) list \<Rightarrow> GUI \<Rightarrow> GUI" where
  "release_buttons [] s = s"
| "release_buttons ((name, button_widget) # items) s =
     release_buttons items
       (s\<lparr>button_widgets :=
            AList.update name (set_controller_pressed False button_widget) (button_widgets s),
          button_states := AList.update name False (button_states s)\<rparr>)"

text \<open>
  \<open>handle_connection_lost\<close>; the first argument says whether the user answers the
  message box with its Reconnect button.
\<close>

definition handle_connection_lost :: "bool \<Rightarrow> GUI \<Rightarrow> GUI" where
  "handle_connection_lost reconnect_clicked s =
     (if \<not> connected s then s
      else
        (let s1 = emit [Log Info ''Handling unexpected connection loss''] s;
             s2 = s1\<lparr>connected := False, controller_state := None, transport := None,
                       protocol := None, connection_monitor_timer := False,
                       reconnect_address := None, reconnect_entry := setText []\<rparr>;
             s3 = emit [Log Info (''Connection lost. Preserved last address: ''
                                  @ str_of (last_connected_address s2) @ '' for auto-reconnect'')] s2;
             s4 = (reset_connection_ui s3)
                    \<lparr>status_label := ''Connection Lost'',
                     connection_info := ''Connection Lost - Click Connect to Reconnect''\<rparr>;
             s5 = update_amiibo_button
                    (s4\<lparr>current_amiibo := None, amiibo_status := ''No amiibo loaded''\<rparr>);
             s6 = release_buttons (button_widgets s5) s5;
             s7 = emit [ConnectionLostBoxExec] s6
         in if reconnect_clicked then emit [SingleShot 100 ''auto_reconnect''] s7 else s7))"

text \<open>\<open>check_connection_status\<close>, the slot of the monitor timer.\<close>

definition check_connection_status :: "bool \<Rightarrow> GUI \<Rightarrow> GUI" where
  "check_connection_status reconnect_clicked s =
     (if \<not> connected s then s
      else if (case protocol s of Some p \<Rightarrow> \<not> has_transport p | None \<Rightarrow> False) then
        handle_connection_lost reconnect_clicked
          (emit [Log Warning ''Connection lost detected - protocol transport is None''] s)
      else
        (case transport s of
           Some t \<Rightarrow>
             (case is_closing t of
                Returns closing \<Rightarrow>
                  if closing \<or> itr_sock t = None then
                    handle_connection_lost reconnect_clicked
                      (emit [Log Warning ''Connection lost detected - transport is closing or invalid''] s)
                  else s
              | Raises e \<Rightarrow>
                  handle_connection_lost reconnect_clicked
                    (emit [Log Error (''Error checking connection status: '' @ e)] s))
         | None \<Rightarrow> s))"

definition auto_reconnect :: "PairedSwitchDialog list \<Rightarrow> GUI \<Rightarrow> GUI" where
  "auto_reconnect ds s =
     (let s1 = emit [Log Info (''Reconnect called. Last address: '' @ str_of (last_connected_address s)),
                     Log Info (''Current reconnect address: '' @ str_of (reconnect_address s))] s
      in case last_connected_address s1 of
           Some a \<Rightarrow>
             if a \<noteq> [] then
               connect ds False
                 (emit [Log Info (''Reconnecting to '' @ a)] s1
                    \<lparr>reconnect_address := Some a, reconnect_entry := setText a\<rparr>)
             else
               show_connection_dialog ds
                 (emit [Log Info ''No previous address available, showing connection dialog''] s1)
         | None \<Rightarrow>
             show_connection_dialog ds
               (emit [Log Info ''No previous address available, showing connection dialog''] s1))"

definition toggle_connection :: "PairedSwitchDialog list \<Rightarrow> GUI \<Rightarrow> GUI" where
  "toggle_connection ds s = (if connected s then disconnect s else connect ds False s)"

subsection \<open>The input dispatcher\<close>

definition on_button_press :: "string \<Rightarrow> GUI \<Rightarrow> GUI" where
  "on_button_press name s =
     (if \<not> connected s \<or> controller_state s = None then s
      else
        (let s1 = s\<lparr>button_states := AList.update name True (button_states s)\<rparr>;
             s2 = (case map_of (button_widgets s1) name of
                     Some w \<Rightarrow>
                       s1\<lparr>button_widgets :=
                            AList.update name (set_controller_pressed True w) (button_widgets s1)\<rparr>
                   | None \<Rightarrow> s1)
         in case run_async (ButtonPress name) s2 of
              Inr (s3, _) \<Rightarrow> s3
            | Inl e \<Rightarrow> emit [Log Error (''Error handling button press '' @ name @ '': '' @ e)] s2))"

definition on_button_release :: "string \<Rightarrow> GUI \<Rightarrow> GUI" where
  "on_button_release name s =
     (if \<not> connected s \<or> controller_state s = None then
        (case map_of (button_widgets s) name of
           Some w \<Rightarrow>
             s\<lparr>button_widgets :=
                 AList.update name (set_controller_pressed False w) (button_widgets s)\<rparr>
         | None \<Rightarrow> s)
      else
        (let s1 = s\<lparr>button_states := AList.update name False (button_states s)\<rparr>;
             s2 = (case map_of (button_widgets s1) name of
                     Some w \<Rightarrow>
                       s1\<lparr>button_widgets :=
                            AList.update name (set_controller_pressed False w) (button_widgets s1)\<rparr>
                   | None \<Rightarrow> s1)
         in case run_async (ButtonRelease name) s2 of
              Inr (s3, _) \<Rightarrow> s3
            | Inl e \<Rightarrow> emit [Log Error (''Error handling button release '' @ name @ '': '' @ e)] s2))"

section \<open>Observations and example sessions\<close>

text \<open>
  Every key of \<open>button_states\<close> is the name of a button widget. \<open>create_button\<close> adds
  each name to both dictionaries, and the two button slots are only ever connected to the
  signals of those widgets, which emit their own \<open>button_name\<close>.
\<close>

definition buttons_wired :: "GUI \<Rightarrow> bool" where
  "buttons_wired s = (fst ` set (button_states s) \<subseteq> fst ` set (button_widgets s))"

text \<open>How many connection workers have been started, and how many loss boxes shown.\<close>

definition workers_started :: "GUI \<Rightarrow> nat" where
  "workers_started s =
     length (filter (\<lambda>e. case e of WorkerStart _ \<Rightarrow> True | _ \<Rightarrow> False) (effects s))"

definition loss_boxes :: "GUI \<Rightarrow> nat" where
  "loss_boxes s = count_list (effects s) ConnectionLostBoxExec"

text \<open>
  A session as it unfolds: the window comes up as root with the loop running; the user
  clicks Connect and picks a paired console; the handshake succeeds; an amiibo is loaded
  and button A is held down.
\<close>

definition running_loop :: Loop where
  "running_loop = \<lparr>is_running = True, is_closed = False\<rparr>"

definition example_idle :: GUI where
  "example_idle = init 0 (Some running_loop)"

definition example_connecting :: GUI where
  "example_connecting =
     toggle_connection
       [\<lparr>accepted = True, start_fresh = False, selected_address = Some ''AA:BB:CC:DD:EE:FF''\<rparr>]
       example_idle"

definition example_handshake :: GUI where
  "example_handshake =
     fst (connect_async
            (Returns (\<lparr>is_closing = Returns False,
                        itr_sock = Some (Returns (Some (''AA:BB:CC:DD:EE:FF'', 19)))\<rparr>,
                      \<lparr>has_transport = True\<rparr>))
            (Returns ()) example_connecting)"

definition example_connected :: GUI where
  "example_connected = on_connection_finished True ''Success'' example_handshake"

definition example_playing :: GUI where
  "example_playing =
     on_button_press ''a''
       (example_connected\<lparr>current_amiibo := Some ''mario.bin'', amiibo_status := ''mario.bin'',
                          amiibo_btn_text := ''Eject Amiibo''\<rparr>)"

text \<open>The same session after the monitor has found the transport closing.\<close>

definition example_lost :: GUI where
  "example_lost =
     check_connection_status False
       (example_playing\<lparr>transport :=
          Some \<lparr>is_closing = Returns True,
                itr_sock = Some (Returns (Some (''AA:BB:CC:DD:EE:FF'', 19)))\<rparr>\<rparr>)"

text \<open>A worker and a window whose loop has been stopped but not closed.\<close>

definition stopped_loop :: Loop where
  "stopped_loop = \<lparr>is_running = False, is_closed = False\<rparr>"

definition example_stopped_worker :: AsyncWorker where
  "example_stopped_worker =
     \<lparr>worker_loop = Some stopped_loop, coro = ConnectAsync ''PRO_CONTROLLER'' None,
      future_set = False, isRunning = True\<rparr>"

text \<open>
  Two handshakes that end without a readable peer address: a fresh pairing whose transport
  has no \<open>_itr_sock\<close>, and a reconnection whose socket refuses \<open>getpeername()\<close>.
\<close>

definition example_fresh_handshake :: GUI where
  "example_fresh_handshake =
     fst (connect_async
            (Returns (\<lparr>is_closing = Returns False, itr_sock = None\<rparr>, \<lparr>has_transport = True\<rparr>))
            (Returns ()) (connect [] True example_idle))"

definition example_blind_handshake :: GUI where
  "example_blind_handshake =
     fst (connect_async
            (Returns (\<lparr>is_closing = Returns False, itr_sock = Some (Raises ''not connected'')\<rparr>,
                      \<lparr>has_transport = True\<rparr>))
            (Returns ()) example_connecting)"

text \<open>
  The fresh pairing completed and then lost: a lost session with no address on record.
  And what the connection dialog may report.
\<close>

definition example_lost_unpaired :: GUI where
  "example_lost_unpaired =
     check_connection_status True (on_connection_finished True ''Success'' example_fresh_handshake)"

definition select_dialog :: "string \<Rightarrow> PairedSwitchDialog" where
  "select_dialog a = \<lparr>accepted = True, start_fresh = False, selected_address = Some a\<rparr>"

definition fresh_dialog :: PairedSwitchDialog where
  "fresh_dialog = \<lparr>accepted = True, start_fresh = True, selected_address = None\<rparr>"

text \<open>
  The lost session of above, whose user then pairs a new console; that handshake ends
  without a readable peer address.
\<close>

definition example_repair_handshake :: GUI where
  "example_repair_handshake =
     fst (connect_async
            (Returns (\<lparr>is_closing = Returns False, itr_sock = None\<rparr>, \<lparr>has_transport = True\<rparr>))
            (Returns ()) (toggle_connection [fresh_dialog] example_lost))"

definition example_repaired :: GUI where
  "example_repaired = on_connection_finished True ''Success'' example_repair_handshake"

section \<open>Helper facts\<close>

lemma setText_empty [simp]: "setText [] = []"
  by (simp add: setText_def)

lemma setText_short: "length t \<le> 32767 \<Longrightarrow> setText t = t"
  by (simp add: setText_def)

text \<open>The same function, in a form that evaluates a short text without counting to the limit.\<close>

lemma setText_code [code]:
  "setText t = (if int (length t) \<le> 32767 then t else take 32767 t)"
  by (simp add: setText_def)

lemma fold_update_keys:
  "fst ` set (fold (\<lambda>(n, w). AList.update n (g w)) items al) = fst ` set al \<union> fst ` set items"
proof (induction items arbitrary: al)
  case Nil
  then show ?case by simp
next
  case (Cons p items)
  then show ?case by (cases p) (simp add: dom_update Un_assoc Un_left_commute insert_commute)
qed

lemma fold_update_absent:
  "k \<notin> fst ` set items \<Longrightarrow>
   map_of (fold (\<lambda>(n, w). AList.update n (g w)) items al) k = map_of al k"
  by (induction items arbitrary: al) (auto simp: update_conv')

lemma fold_update_present:
  "k \<in> fst ` set items \<Longrightarrow>
   \<exists>w. map_of (fold (\<lambda>(n, w). AList.update n (g w)) items al) k = Some (g w)"
proof (induction items arbitrary: al)
  case Nil
  then show ?case by simp
next
  case (Cons p items)
  obtain n w where p: "p = (n, w)" by (cases p)
  show ?case
  proof (cases "k \<in> fst ` set items")
    case True
    with Cons.IH show ?thesis by (simp add: p)
  next
    case False
    with Cons.prems have "k = n" by (auto simp: p)
    with False have "map_of (fold (\<lambda>(n, w). AList.update n (g w)) (p # items) al) k = Some (g w)"
      by (simp add: p fold_update_absent update_conv')
    then show ?thesis by blast
  qed
qed

lemma release_buttons_eq:
  "release_buttons items s =
     s\<lparr>button_widgets :=
         fold (\<lambda>(n, w). AList.update n (set_controller_pressed False w)) items (button_widgets s),
       button_states := fold (\<lambda>(n, w). AList.update n ((\<lambda>_. False) w)) items (button_states s)\<rparr>"
  by (induction items arbitrary: s) auto

lemma released_states:
  assumes "fst ` set st \<subseteq> fst ` set items"
    and "map_of (fold (\<lambda>(n, w). AList.update n ((\<lambda>_. False) w)) items st) k = Some v"
  shows "\<not> v"
proof -
  from assms(2) have "k \<in> fst ` set (fold (\<lambda>(n, w). AList.update n ((\<lambda>_. False) w)) items st)"
    by (metis map_of_SomeD fst_conv image_eqI)
  with assms(1) have "k \<in> fst ` set items" by (auto simp: fold_update_keys)
  from fold_update_present [OF this, of "\<lambda>_. False" st] assms(2) show ?thesis by simp
qed

lemma released_widgets:
  assumes "map_of (fold (\<lambda>(n, w). AList.update n (set_controller_pressed False w)) items items) k = Some b"
  shows "\<not> is_controller_pressed b"
proof -
  from assms have "k \<in> fst ` set (fold (\<lambda>(n, w). AList.update n (set_controller_pressed False w)) items items)"
    by (metis map_of_SomeD fst_conv image_eqI)
  then have "k \<in> fst ` set items" by (auto simp: fold_update_keys)
  from fold_update_present [OF this, of "set_controller_pressed False" items] assms
  show ?thesis by (auto simp: set_controller_pressed_def)
qed

lemma handle_connection_lost_fields:
  assumes "connected s"
  shows "last_connected_address (handle_connection_lost rc s) = last_connected_address s"
    and "transport (handle_connection_lost rc s) = None"
    and "protocol (handle_connection_lost rc s) = None"
    and "controller_state (handle_connection_lost rc s) = None"
    and "current_amiibo (handle_connection_lost rc s) = None"
    and "\<not> connection_monitor_timer (handle_connection_lost rc s)"
    and "\<not> connected (handle_connection_lost rc s)"
    and "button_states (handle_connection_lost rc s) =
           fold (\<lambda>(n, w). AList.update n ((\<lambda>_. False) w)) (button_widgets s) (button_states s)"
    and "button_widgets (handle_connection_lost rc s) =
           fold (\<lambda>(n, w). AList.update n (set_controller_pressed False w)) (button_widgets s) (button_widgets s)"
  using assms
  by (simp_all add: handle_connection_lost_def Let_def emit_def reset_connection_ui_def
      update_amiibo_button_def truthy_def release_buttons_eq)

section \<open>Losing the connection\<close>

text \<open>
  Claim C1. In every state with \<open>connected\<close> set (and the button dictionaries wired as
  \<open>create_button\<close> leaves them), \<open>handle_connection_lost\<close> leaves
  \<open>_last_connected_address\<close> as it was, sets \<open>transport\<close>, \<open>protocol\<close> and
  \<open>controller_state\<close> to \<open>None\<close>, sets \<open>current_amiibo\<close> to \<open>None\<close>, stops the
  monitor timer, clears \<open>connected\<close>, and leaves every entry of \<open>button_states\<close> released
  and no widget shown as pressed.
\<close>

theorem handle_connection_lost_preserves_address:
  assumes "connected s" and "buttons_wired s"
  shows "last_connected_address (handle_connection_lost rc s) = last_connected_address s
       \<and> transport (handle_connection_lost rc s) = None
       \<and> protocol (handle_connection_lost rc s) = None
       \<and> controller_state (handle_connection_lost rc s) = None
       \<and> current_amiibo (handle_connection_lost rc s) = None
       \<and> \<not> connection_monitor_timer (handle_connection_lost rc s)
       \<and> \<not> connected (handle_connection_lost rc s)
       \<and> (\<forall>name pressed. map_of (button_states (handle_connection_lost rc s)) name = Some pressed
             \<longrightarrow> \<not> pressed)
       \<and> (\<forall>name b. map_of (button_widgets (handle_connection_lost rc s)) name = Some b
             \<longrightarrow> \<not> is_controller_pressed b)"
proof -
  from assms(2) have sub: "fst ` set (button_states s) \<subseteq> fst ` set (button_widgets s)"
    by (simp add: buttons_wired_def)
  have st: "\<forall>name pressed. map_of (button_states (handle_connection_lost rc s)) name = Some pressed
             \<longrightarrow> \<not> pressed"
    using released_states [OF sub] by (auto simp: handle_connection_lost_fields [OF assms(1)])
  have ws: "\<forall>name b. map_of (button_widgets (handle_connection_lost rc s)) name = Some b
             \<longrightarrow> \<not> is_controller_pressed b"
    using released_widgets [of "button_widgets s"]
    by (simp add: handle_connection_lost_fields [OF assms(1)])
  from st ws handle_connection_lost_fields(1-7) [OF assms(1), of rc] show ?thesis by blast
qed

theorem handle_connection_lost_preserves_address_witness:
  "connected example_playing \<and> buttons_wired example_playing
   \<and> map_of (button_states example_playing) ''a'' = Some True
   \<and> current_amiibo example_playing = Some ''mario.bin''
   \<and> last_connected_address (handle_connection_lost True example_playing) = Some ''AA:BB:CC:DD:EE:FF''
   \<and> transport (handle_connection_lost True example_playing) = None
   \<and> current_amiibo (handle_connection_lost True example_playing) = None
   \<and> map_of (button_states (handle_connection_lost True example_playing)) ''a'' = Some False"
proof -
  have c: "connected example_playing" by code_simp
  have w: "buttons_wired example_playing" by code_simp
  have a: "last_connected_address example_playing = Some ''AA:BB:CC:DD:EE:FF''" by code_simp
  have b: "map_of (button_states example_playing) ''a'' = Some True" by code_simp
  have m: "current_amiibo example_playing = Some ''mario.bin''" by code_simp
  have k: "map_of (button_states (handle_connection_lost True example_playing)) ''a'' \<noteq> None"
    by code_simp
  note loss = handle_connection_lost_preserves_address [OF c w, of True]
  from loss k have r: "map_of (button_states (handle_connection_lost True example_playing)) ''a'' = Some False"
    by fastforce
  from loss c w a b m r show ?thesis by simp
qed

subsection \<open>The button dictionaries stay wired\<close>

lemma connect_keeps_buttons:
  "button_states (connect ds fresh s) = button_states s
   \<and> button_widgets (connect ds fresh s) = button_widgets s"
  "button_states (show_connection_dialog ds s) = button_states s
   \<and> button_widgets (show_connection_dialog ds s) = button_widgets s"
proof (induction ds fresh s and ds s rule: connect_show_connection_dialog.induct)
  case (1 ds fresh s)
  then show ?case by (simp add: connect.simps [of ds fresh s] emit_def Let_def)
next
  case (2 s)
  then show ?case by (simp add: show_connection_dialog.simps emit_def)
next
  case (3 dialog ds s)
  then show ?case
    by (simp add: show_connection_dialog.simps emit_def split: option.splits)
qed

lemma buttons_wired_cong:
  "button_states t = button_states s \<Longrightarrow> button_widgets t = button_widgets s \<Longrightarrow>
   buttons_wired t = buttons_wired s"
  by (simp add: buttons_wired_def)

lemma buttons_wired_init: "buttons_wired (init uid loop)"
  by (simp add: buttons_wired_def init_def emit_def create_controller_layout_def
      create_pro_controller_layout_def create_button_def)

lemma buttons_wired_connect: "buttons_wired (connect ds fresh s) = buttons_wired s"
  by (rule buttons_wired_cong) (simp_all add: connect_keeps_buttons)

lemma buttons_wired_show_connection_dialog:
  "buttons_wired (show_connection_dialog ds s) = buttons_wired s"
  by (rule buttons_wired_cong) (simp_all add: connect_keeps_buttons)

lemma buttons_wired_connect_async:
  "buttons_wired (fst (connect_async hid_server state_connect s)) = buttons_wired s"
  by (rule buttons_wired_cong)
    (simp_all add: connect_async_def emit_def Let_def split: outcome.splits prod.splits)

lemma buttons_wired_on_connection_finished:
  "buttons_wired (on_connection_finished success message s) = buttons_wired s"
  by (rule buttons_wired_cong)
    (simp_all add: on_connection_finished_def emit_def Let_def update_amiibo_button_def
      reset_connection_ui_def split: option.splits outcome.splits prod.splits)

lemma buttons_wired_disconnect: "buttons_wired (disconnect s) = buttons_wired s"
  by (rule buttons_wired_cong)
    (simp_all add: disconnect_def run_async_def emit_def Let_def reset_connection_ui_def
      split: option.splits sum.splits prod.splits)

lemma buttons_wired_auto_reconnect: "buttons_wired (auto_reconnect ds s) = buttons_wired s"
  by (simp add: auto_reconnect_def Let_def buttons_wired_connect
      buttons_wired_show_connection_dialog split: option.splits)
    (simp add: buttons_wired_def emit_def)

lemma buttons_wired_handle_connection_lost:
  "buttons_wired s \<Longrightarrow> buttons_wired (handle_connection_lost rc s)"
proof (cases "connected s")
  case True
  assume "buttons_wired s"
  then show ?thesis
    by (auto simp: buttons_wired_def handle_connection_lost_fields(8,9) [OF True] fold_update_keys)
next
  case False
  assume "buttons_wired s"
  with False show ?thesis by (simp add: handle_connection_lost_def)
qed

lemma buttons_wired_emit: "buttons_wired (emit es s) = buttons_wired s"
  by (simp add: buttons_wired_def emit_def)

lemma buttons_wired_check_connection_status:
  "buttons_wired s \<Longrightarrow> buttons_wired (check_connection_status rc s)"
  by (simp add: check_connection_status_def buttons_wired_handle_connection_lost
      buttons_wired_emit split: option.splits outcome.splits)

lemma buttons_wired_on_button_press:
  "name \<in> fst ` set (button_widgets s) \<Longrightarrow> buttons_wired s \<Longrightarrow>
   buttons_wired (on_button_press name s)"
  by (auto simp: buttons_wired_def on_button_press_def run_async_def emit_def Let_def
      dom_update split: option.splits sum.splits prod.splits)

lemma buttons_wired_on_button_release:
  "name \<in> fst ` set (button_widgets s) \<Longrightarrow> buttons_wired s \<Longrightarrow>
   buttons_wired (on_button_release name s)"
  by (auto simp: buttons_wired_def on_button_release_def run_async_def emit_def Let_def
      dom_update split: option.splits sum.splits prod.splits)

section \<open>Connecting\<close>

lemma connect_starts:
  assumes "euid s = 0"
    and "fresh \<or> truthy (str_or (strip (reconnect_entry s)) (reconnect_address s))"
  shows "connect ds fresh s =
     s\<lparr>connect_btn_text := ''Connecting...'', connect_btn_enabled := False,
       status_label := ''Connecting...'',
       connection_worker :=
         Some \<lparr>worker_loop = async_loop s,
               coro = ConnectAsync ''PRO_CONTROLLER''
                        (if fresh then None else str_or (strip (reconnect_entry s)) (reconnect_address s)),
               future_set = False, isRunning = True\<rparr>,
       effects := effects s @
         [Log Info (''Starting connection. Start fresh: '' @ str_of_bool fresh @ '', Reconnect addr: ''
                    @ str_of (if fresh then None else str_or (strip (reconnect_entry s)) (reconnect_address s))),
          WorkerStart (ConnectAsync ''PRO_CONTROLLER''
                        (if fresh then None else str_or (strip (reconnect_entry s)) (reconnect_address s)))]\<rparr>"
  using assms by (auto simp: connect.simps [of ds fresh s] emit_def Let_def)

text \<open>
  Claim C9. \<open>connect\<close> first compares \<open>os.geteuid()\<close> with 0: when it differs, the call
  shows the critical box "This application must be run as root!" and returns; no worker is
  started and no field of the window changes.
\<close>

theorem connect_without_root_is_refused:
  assumes "euid s \<noteq> 0"
  shows "connect ds fresh s =
           s\<lparr>effects := effects s @
               [MessageBoxCritical ''Error'' ''This application must be run as root!'']\<rparr>"
  using assms by (simp add: connect.simps [of ds fresh s] emit_def)

theorem connect_without_root_is_refused_witness:
  "euid (init 1000 (Some running_loop)) \<noteq> 0
   \<and> connect [] True (init 1000 (Some running_loop)) =
       (init 1000 (Some running_loop))
         \<lparr>effects := effects (init 1000 (Some running_loop)) @
            [MessageBoxCritical ''Error'' ''This application must be run as root!'']\<rparr>
   \<and> connection_worker (connect [] True (init 1000 (Some running_loop))) = None"
proof -
  have h: "euid (init 1000 (Some running_loop)) \<noteq> 0" by code_simp
  have w: "connection_worker (init 1000 (Some running_loop)) = None" by code_simp
  from connect_without_root_is_refused [OF h, of "[]" True] h w show ?thesis by simp
qed

text \<open>
  Claim C6. Run as root, \<open>connect(start_fresh=True)\<close> hands the factory no address,
  whatever the entry, \<open>reconnect_address\<close> and \<open>_last_connected_address\<close> hold. Without
  \<open>start_fresh\<close> the address handed over is the text of the entry (stripped) when that is
  not empty, and \<open>reconnect_address\<close> only when the entry is empty.
\<close>

theorem connect_passes_chosen_address:
  assumes "euid s = 0"
  shows "map_option coro (connection_worker (connect ds True s)) = Some (ConnectAsync ''PRO_CONTROLLER'' None)
     \<and> last (effects (connect ds True s)) = WorkerStart (ConnectAsync ''PRO_CONTROLLER'' None)
     \<and> (strip (reconnect_entry s) \<noteq> [] \<longrightarrow>
          map_option coro (connection_worker (connect ds False s)) =
            Some (ConnectAsync ''PRO_CONTROLLER'' (Some (strip (reconnect_entry s))))
          \<and> last (effects (connect ds False s)) =
            WorkerStart (ConnectAsync ''PRO_CONTROLLER'' (Some (strip (reconnect_entry s)))))
     \<and> (strip (reconnect_entry s) = [] \<and> truthy (reconnect_address s) \<longrightarrow>
          map_option coro (connection_worker (connect ds False s)) =
            Some (ConnectAsync ''PRO_CONTROLLER'' (reconnect_address s))
          \<and> last (effects (connect ds False s)) =
            WorkerStart (ConnectAsync ''PRO_CONTROLLER'' (reconnect_address s)))"
proof -
  have fresh: "map_option coro (connection_worker (connect ds True s)) = Some (ConnectAsync ''PRO_CONTROLLER'' None)
     \<and> last (effects (connect ds True s)) = WorkerStart (ConnectAsync ''PRO_CONTROLLER'' None)"
    by (simp add: connect_starts [OF assms, of True])
  have entry: "map_option coro (connection_worker (connect ds False s)) =
            Some (ConnectAsync ''PRO_CONTROLLER'' (Some (strip (reconnect_entry s))))
          \<and> last (effects (connect ds False s)) =
            WorkerStart (ConnectAsync ''PRO_CONTROLLER'' (Some (strip (reconnect_entry s))))"
    if "strip (reconnect_entry s) \<noteq> []"
    using that by (simp add: connect_starts [OF assms, of False] str_or_def truthy_def)
  have kept: "map_option coro (connection_worker (connect ds False s)) =
            Some (ConnectAsync ''PRO_CONTROLLER'' (reconnect_address s))
          \<and> last (effects (connect ds False s)) =
            WorkerStart (ConnectAsync ''PRO_CONTROLLER'' (reconnect_address s))"
    if "strip (reconnect_entry s) = []" "truthy (reconnect_address s)"
    using that by (simp add: connect_starts [OF assms, of False] str_or_def)
  from fresh entry kept show ?thesis by blast
qed

theorem connect_passes_chosen_address_witness:
  "euid example_lost = 0 \<and> last_connected_address example_lost = Some ''AA:BB:CC:DD:EE:FF''
   \<and> map_option coro (connection_worker (connect [] True example_lost)) =
       Some (ConnectAsync ''PRO_CONTROLLER'' None)
   \<and> euid example_connected = 0
   \<and> strip (reconnect_entry (example_connected\<lparr>reconnect_entry := '' 11:22:33:44:55:66 ''\<rparr>)) \<noteq> []
   \<and> reconnect_address example_connected = Some ''AA:BB:CC:DD:EE:FF''
   \<and> map_option coro (connection_worker
         (connect [] False (example_connected\<lparr>reconnect_entry := '' 11:22:33:44:55:66 ''\<rparr>))) =
       Some (ConnectAsync ''PRO_CONTROLLER'' (Some ''11:22:33:44:55:66''))
   \<and> strip (reconnect_entry (example_connected\<lparr>reconnect_entry := ''  ''\<rparr>)) = []
   \<and> truthy (reconnect_address (example_connected\<lparr>reconnect_entry := ''  ''\<rparr>))
   \<and> map_option coro (connection_worker
         (connect [] False (example_connected\<lparr>reconnect_entry := ''  ''\<rparr>))) =
       Some (ConnectAsync ''PRO_CONTROLLER'' (Some ''AA:BB:CC:DD:EE:FF''))"
proof -
  have e1: "euid example_lost = 0" by code_simp
  have l1: "last_connected_address example_lost = Some ''AA:BB:CC:DD:EE:FF''" by code_simp
  have e2: "euid (example_connected\<lparr>reconnect_entry := '' 11:22:33:44:55:66 ''\<rparr>) = 0" by code_simp
  have s2: "strip (reconnect_entry (example_connected\<lparr>reconnect_entry := '' 11:22:33:44:55:66 ''\<rparr>))
              = ''11:22:33:44:55:66''" by code_simp
  have e3: "euid (example_connected\<lparr>reconnect_entry := ''  ''\<rparr>) = 0" by code_simp
  have s3: "strip (reconnect_entry (example_connected\<lparr>reconnect_entry := ''  ''\<rparr>)) = []" by code_simp
  have r3: "reconnect_address (example_connected\<lparr>reconnect_entry := ''  ''\<rparr>) = Some ''AA:BB:CC:DD:EE:FF''"
    by code_simp
  have t3: "truthy (Some ''AA:BB:CC:DD:EE:FF'')" by code_simp
  from connect_passes_chosen_address [OF e1, of "[]"]
    connect_passes_chosen_address [OF e2, of "[]"]
    connect_passes_chosen_address [OF e3, of "[]"]
    e1 l1 e2 s2 e3 s3 r3 t3
  show ?thesis by simp
qed

text \<open>
  Claim C3, as stated: a \<open>connect()\<close> issued while a connect is in progress or
  established is refused with \<open>AlreadyConnecting\<close>, so only one worker is ever created.
  The code has no such guard. In the example session a second \<open>connect()\<close> while the first
  worker is still running starts a second worker, and so does one issued when connected;
  neither shows an error box.
\<close>

theorem connect_twice_counterexample:
  "\<not> connected example_connecting
   \<and> map_option isRunning (connection_worker example_connecting) = Some True
   \<and> workers_started example_connecting = 1
   \<and> workers_started (connect [] False example_connecting) = 2
   \<and> effects (connect [] False example_connecting) =
       effects example_connecting @
         [Log Info ''Starting connection. Start fresh: False, Reconnect addr: AA:BB:CC:DD:EE:FF'',
          WorkerStart (ConnectAsync ''PRO_CONTROLLER'' (Some ''AA:BB:CC:DD:EE:FF''))]
   \<and> connected example_connected
   \<and> workers_started (connect [] False example_connected) = 2"
  by code_simp

text \<open>
  Claim C3, amended. \<open>connect()\<close> looks neither at \<open>connected\<close> nor at
  \<open>connection_worker\<close>: run as root with an address at hand (or \<open>start_fresh\<close>) it starts
  one more worker and replaces \<open>connection_worker\<close>, whatever those two fields hold. What
  keeps a second attempt away is the user interface: \<open>connect()\<close> disables the connect
  button while the attempt runs, and \<open>toggle_connection\<close> calls \<open>disconnect()\<close> instead of
  \<open>connect()\<close> once connected.
\<close>

theorem connect_has_no_reentry_guard:
  assumes "euid s = 0"
    and "fresh \<or> truthy (str_or (strip (reconnect_entry s)) (reconnect_address s))"
  shows "workers_started (connect ds fresh s) = Suc (workers_started s)
     \<and> connect ds fresh (s\<lparr>connected := c, connection_worker := w\<rparr>) =
         (connect ds fresh s)\<lparr>connected := c\<rparr>
     \<and> connection_worker (connect ds fresh s) =
         Some \<lparr>worker_loop = async_loop s,
               coro = ConnectAsync ''PRO_CONTROLLER''
                        (if fresh then None else str_or (strip (reconnect_entry s)) (reconnect_address s)),
               future_set = False, isRunning = True\<rparr>
     \<and> \<not> connect_btn_enabled (connect ds fresh s)
     \<and> connect_btn_text (connect ds fresh s) = ''Connecting...''
     \<and> toggle_connection ds s = (if connected s then disconnect s else connect ds False s)"
proof -
  let ?t = "s\<lparr>connected := c, connection_worker := w\<rparr>"
  have t: "euid ?t = 0"
    "fresh \<or> truthy (str_or (strip (reconnect_entry ?t)) (reconnect_address ?t))"
    using assms by simp_all
  have "connect ds fresh ?t = (connect ds fresh s)\<lparr>connected := c\<rparr>"
    by (simp add: connect_starts [OF t] connect_starts [OF assms])
  then show ?thesis
    by (simp add: connect_starts [OF assms] workers_started_def toggle_connection_def)
qed

theorem connect_has_no_reentry_guard_witness:
  "euid example_connecting = 0
   \<and> truthy (str_or (strip (reconnect_entry example_connecting)) (reconnect_address example_connecting))
   \<and> connection_worker example_connecting \<noteq> None
   \<and> workers_started (connect [] False example_connecting) = Suc (workers_started example_connecting)
   \<and> \<not> connect_btn_enabled (connect [] False example_connecting)"
proof -
  have e: "euid example_connecting = 0" by code_simp
  have a: "truthy (str_or (strip (reconnect_entry example_connecting)) (reconnect_address example_connecting))"
    by code_simp
  have w: "connection_worker example_connecting \<noteq> None" by code_simp
  from connect_has_no_reentry_guard [OF e disjI2 [OF a], of "[]"] e a w show ?thesis by simp
qed

section \<open>Disconnecting\<close>

lemma disconnect_keeps_amiibo_and_buttons:
  "current_amiibo (disconnect s) = current_amiibo s
   \<and> button_states (disconnect s) = button_states s
   \<and> button_widgets (disconnect s) = button_widgets s"
  by (simp add: disconnect_def run_async_def emit_def Let_def reset_connection_ui_def
      split: option.splits sum.splits prod.splits)

lemma disconnect_clears:
  assumes "\<forall>l. async_loop s = Some l \<longrightarrow> \<not> is_closed l"
  shows "\<not> connected (disconnect s) \<and> transport (disconnect s) = None
     \<and> protocol (disconnect s) = None \<and> controller_state (disconnect s) = None
     \<and> connection_worker (disconnect s) = None \<and> \<not> connection_monitor_timer (disconnect s)
     \<and> reconnect_address (disconnect s) = None \<and> reconnect_entry (disconnect s) = []
     \<and> last_connected_address (disconnect s) = None"
  using assms
  by (auto simp: disconnect_def run_async_def emit_def Let_def reset_connection_ui_def
      split: option.splits sum.splits prod.splits)

text \<open>
  Claim C2. \<open>disconnect()\<close> stops the timer, cancels a running worker, closes the transport
  and clears the address fields, but it never touches \<open>current_amiibo\<close> or
  \<open>button_states\<close>: in the example session, with an amiibo loaded and button A held, both
  survive the disconnect, while \<open>handle_connection_lost\<close> on the same state clears them.
\<close>

theorem disconnect_leaves_amiibo_and_pressed_button:
  "connected example_playing
   \<and> current_amiibo example_playing = Some ''mario.bin''
   \<and> map_of (button_states example_playing) ''a'' = Some True
   \<and> \<not> connected (disconnect example_playing)
   \<and> last_connected_address (disconnect example_playing) = None
   \<and> current_amiibo (disconnect example_playing) = Some ''mario.bin''
   \<and> map_of (button_states (disconnect example_playing)) ''a'' = Some True
   \<and> map_option is_controller_pressed (map_of (button_widgets (disconnect example_playing)) ''a'')
       = Some True
   \<and> current_amiibo (handle_connection_lost False example_playing) = None
   \<and> map_of (button_states (handle_connection_lost False example_playing)) ''a'' = Some False"
  by code_simp

section \<open>The input dispatcher when not connected\<close>

text \<open>
  Claim C8, as stated: a press or release while not connected is a logged no-op that leaves
  the widgets' pressed look unchanged. After the disconnect above button A is still shown
  as pressed; its release, arriving while not connected, clears that look. (A press in the
  same state changes nothing and logs nothing.)
\<close>

theorem release_when_not_connected_counterexample:
  "\<not> connected (disconnect example_playing)
   \<and> map_option is_controller_pressed (map_of (button_widgets (disconnect example_playing)) ''a'')
       = Some True
   \<and> map_option is_controller_pressed
        (map_of (button_widgets (on_button_release ''a'' (disconnect example_playing))) ''a'')
       = Some False
   \<and> on_button_release ''a'' (disconnect example_playing) \<noteq> disconnect example_playing
   \<and> effects (on_button_release ''a'' (disconnect example_playing)) = effects (disconnect example_playing)
   \<and> effects (on_button_press ''a'' (disconnect example_playing)) = effects (disconnect example_playing)"
  by code_simp

text \<open>
  Claim C8, amended. While \<open>connected\<close> is false, \<open>on_button_press\<close> returns at once: no
  field changes, nothing is logged and nothing is handed to the loop. \<open>on_button_release\<close>
  likewise leaves \<open>button_states\<close> and every other field alone, logs nothing and submits
  nothing, but it clears the pressed look of the named button's widget when there is one.
\<close>

theorem button_events_when_not_connected:
  assumes "\<not> connected s"
  shows "on_button_press name s = s
     \<and> on_button_release name s =
         s\<lparr>button_widgets :=
             (case map_of (button_widgets s) name of
                Some b \<Rightarrow> AList.update name (b\<lparr>is_controller_pressed := False\<rparr>) (button_widgets s)
              | None \<Rightarrow> button_widgets s)\<rparr>
     \<and> button_states (on_button_release name s) = button_states s
     \<and> effects (on_button_release name s) = effects s"
  using assms
  by (simp add: on_button_press_def on_button_release_def set_controller_pressed_def
      split: option.splits)

theorem button_events_when_not_connected_witness:
  "\<not> connected example_lost
   \<and> on_button_press ''a'' example_lost = example_lost
   \<and> button_states (on_button_release ''a'' example_lost) = button_states example_lost
   \<and> effects (on_button_release ''a'' example_lost) = effects example_lost"
proof -
  have c: "\<not> connected example_lost" by code_simp
  from button_events_when_not_connected [OF c, of "''a''"] c show ?thesis by simp
qed

section \<open>The health monitor\<close>

lemma handle_connection_lost_effects:
  assumes "connected s"
  shows "effects (handle_connection_lost rc s) =
     effects s @
       [Log Info ''Handling unexpected connection loss'',
        Log Info (''Connection lost. Preserved last address: ''
                  @ str_of (last_connected_address s) @ '' for auto-reconnect''),
        ConnectionLostBoxExec]
       @ (if rc then [SingleShot 100 ''auto_reconnect''] else [])"
  using assms
  by (simp add: handle_connection_lost_def Let_def emit_def reset_connection_ui_def
      update_amiibo_button_def truthy_def release_buttons_eq)

lemma handle_connection_lost_once:
  assumes "connected (emit es s)"
  shows "\<not> connected (handle_connection_lost rc (emit es s))"
    and "loss_boxes (handle_connection_lost rc (emit [Log lvl msg] s)) = Suc (loss_boxes s)"
proof -
  from assms have c: "connected s" by (simp add: emit_def)
  then have c': "connected (emit [Log lvl msg] s)" by (simp add: emit_def)
  show "\<not> connected (handle_connection_lost rc (emit es s))"
    using handle_connection_lost_fields(7) [OF assms] .
  show "loss_boxes (handle_connection_lost rc (emit [Log lvl msg] s)) = Suc (loss_boxes s)"
    unfolding loss_boxes_def handle_connection_lost_effects [OF c']
    by (simp add: emit_def)
qed

lemma check_connection_status_loss:
  assumes "connected s"
    and "(\<exists>p. protocol s = Some p \<and> \<not> has_transport p)
       \<or> (\<exists>t. transport s = Some t \<and> (is_closing t = Returns True \<or> itr_sock t = None))"
  shows "\<exists>lvl msg. check_connection_status rc s = handle_connection_lost rc (emit [Log lvl msg] s)"
  using assms
  by (auto simp: check_connection_status_def split: option.splits outcome.splits)

text \<open>
  Claim C4. A tick of \<open>check_connection_status\<close> reads \<open>connected\<close>,
  \<open>protocol.transport\<close>, \<open>transport.is_closing()\<close> and the presence of \<open>_itr_sock\<close>,
  nothing else. With \<open>connected\<close> false it changes nothing. With \<open>connected\<close> true and
  one of the failure signs present it logs one record and runs \<open>handle_connection_lost\<close>:
  \<open>connected\<close> becomes false, the loss box is shown exactly once, and a further tick
  changes nothing. With \<open>connected\<close> true, no failure sign and no exception from
  \<open>is_closing()\<close> the tick changes nothing.
\<close>

theorem check_connection_status_detects_loss_once:
  "(\<not> connected s \<longrightarrow> check_connection_status rc s = s)
   \<and> (connected s
        \<and> ((\<exists>p. protocol s = Some p \<and> \<not> has_transport p)
           \<or> (\<exists>t. transport s = Some t \<and> (is_closing t = Returns True \<or> itr_sock t = None)))
       \<longrightarrow> (\<exists>lvl msg. check_connection_status rc s = handle_connection_lost rc (emit [Log lvl msg] s))
         \<and> \<not> connected (check_connection_status rc s)
         \<and> loss_boxes (check_connection_status rc s) = Suc (loss_boxes s)
         \<and> check_connection_status rc' (check_connection_status rc s) = check_connection_status rc s
         \<and> loss_boxes (check_connection_status rc' (check_connection_status rc s)) = Suc (loss_boxes s))
   \<and> (connected s
        \<and> \<not> ((\<exists>p. protocol s = Some p \<and> \<not> has_transport p)
             \<or> (\<exists>t. transport s = Some t \<and> (is_closing t = Returns True \<or> itr_sock t = None)))
        \<and> (\<forall>t e. transport s = Some t \<longrightarrow> is_closing t \<noteq> Raises e)
       \<longrightarrow> check_connection_status rc s = s)"
proof -
  have idle: "check_connection_status rc s = s" if "\<not> connected s" for rc s
    using that by (simp add: check_connection_status_def)
  have lost: "(\<exists>lvl msg. check_connection_status rc s = handle_connection_lost rc (emit [Log lvl msg] s))
         \<and> \<not> connected (check_connection_status rc s)
         \<and> loss_boxes (check_connection_status rc s) = Suc (loss_boxes s)
         \<and> check_connection_status rc' (check_connection_status rc s) = check_connection_status rc s
         \<and> loss_boxes (check_connection_status rc' (check_connection_status rc s)) = Suc (loss_boxes s)"
    if c: "connected s"
      and f: "(\<exists>p. protocol s = Some p \<and> \<not> has_transport p)
           \<or> (\<exists>t. transport s = Some t \<and> (is_closing t = Returns True \<or> itr_sock t = None))"
  proof -
    from check_connection_status_loss [OF c f, of rc] obtain lvl msg
      where eq: "check_connection_status rc s = handle_connection_lost rc (emit [Log lvl msg] s)"
      by blast
    from c have c': "connected (emit [Log lvl msg] s)" by (simp add: emit_def)
    have off: "\<not> connected (check_connection_status rc s)"
      using handle_connection_lost_once(1) [OF c'] by (simp add: eq)
    have one: "loss_boxes (check_connection_status rc s) = Suc (loss_boxes s)"
      using handle_connection_lost_once(2) [OF c'] by (simp add: eq)
    have again: "check_connection_status rc' (check_connection_status rc s) = check_connection_status rc s"
      using idle [OF off] .
    from eq off one again show ?thesis by auto
  qed
  have quiet: "check_connection_status rc s = s"
    if "connected s"
      and "\<not> ((\<exists>p. protocol s = Some p \<and> \<not> has_transport p)
             \<or> (\<exists>t. transport s = Some t \<and> (is_closing t = Returns True \<or> itr_sock t = None)))"
      and "\<forall>t e. transport s = Some t \<longrightarrow> is_closing t \<noteq> Raises e"
    using that
    by (auto simp: check_connection_status_def split: option.splits outcome.splits)
  from idle lost quiet show ?thesis by blast
qed

theorem check_connection_status_detects_loss_once_witness:
  "connected (example_playing\<lparr>protocol := Some \<lparr>has_transport = False\<rparr>\<rparr>)
   \<and> (\<exists>p. protocol (example_playing\<lparr>protocol := Some \<lparr>has_transport = False\<rparr>\<rparr>) = Some p \<and> \<not> has_transport p)
   \<and> \<not> connected (check_connection_status True (example_playing\<lparr>protocol := Some \<lparr>has_transport = False\<rparr>\<rparr>))
   \<and> loss_boxes (check_connection_status False
         (check_connection_status True (example_playing\<lparr>protocol := Some \<lparr>has_transport = False\<rparr>\<rparr>)))
       = Suc (loss_boxes (example_playing\<lparr>protocol := Some \<lparr>has_transport = False\<rparr>\<rparr>))
   \<and> \<not> connected example_lost
   \<and> check_connection_status True example_lost = example_lost
   \<and> connected example_playing
   \<and> check_connection_status True example_playing = example_playing"
proof -
  let ?s = "example_playing\<lparr>protocol := Some \<lparr>has_transport = False\<rparr>\<rparr>"
  have c: "connected ?s" by code_simp
  have p: "\<exists>p. protocol ?s = Some p \<and> \<not> has_transport p" by simp
  have l: "\<not> connected example_lost" by code_simp
  have k: "connected example_playing" by code_simp
  have tp: "protocol example_playing = Some \<lparr>has_transport = True\<rparr>" by code_simp
  have tt: "transport example_playing =
              Some \<lparr>is_closing = Returns False,
                    itr_sock = Some (Returns (Some (''AA:BB:CC:DD:EE:FF'', 19)))\<rparr>" by code_simp
  have n: "\<not> ((\<exists>p. protocol example_playing = Some p \<and> \<not> has_transport p)
             \<or> (\<exists>t. transport example_playing = Some t \<and> (is_closing t = Returns True \<or> itr_sock t = None)))"
    by (simp add: tp tt)
  have r: "\<forall>t e. transport example_playing = Some t \<longrightarrow> is_closing t \<noteq> Raises e"
    by (simp add: tt)
  from check_connection_status_detects_loss_once [of ?s True False]
    check_connection_status_detects_loss_once [of example_lost True]
    check_connection_status_detects_loss_once [of example_playing True]
    c p l k n r
  show ?thesis by simp
qed

section \<open>The runtime bridge\<close>

text \<open>
  Claim C5, as stated: work submitted while the loop is absent, stopped or closed fails at
  once with the unavailability report. For a loop that is stopped but not closed the guard
  of \<open>AsyncWorker.run\<close> lets the coroutine through: whatever the submission then does, the
  report "Async loop not available" is not what \<open>run\<close> emits, and when the future never
  completes \<open>run\<close> emits nothing at all. \<open>run_async\<close> on such a loop returns a future and
  reports nothing; on an absent loop it returns \<open>None\<close>, again reporting nothing.
\<close>

theorem stopped_loop_counterexample:
  "\<not> is_running stopped_loop
   \<and> AsyncWorker_run example_stopped_worker None = None
   \<and> AsyncWorker_run example_stopped_worker (Some (Returns ())) = Some [Emit True ''Success'']
   \<and> AsyncWorker_run example_stopped_worker (Some (Raises ''cancelled'')) =
       Some [Log Error ''AsyncWorker error: cancelled'', Emit False ''cancelled'']
   \<and> run_async (ButtonPress ''a'') (example_playing\<lparr>async_loop := Some stopped_loop\<rparr>) =
       Inr (emit [RunCoroutineThreadsafe (ButtonPress ''a'')]
              (example_playing\<lparr>async_loop := Some stopped_loop\<rparr>), Some (ButtonPress ''a''))
   \<and> run_async (ButtonPress ''a'') (example_playing\<lparr>async_loop := None\<rparr>) =
       Inr (example_playing\<lparr>async_loop := None\<rparr>, None)"
  by (simp add: stopped_loop_def example_stopped_worker_def AsyncWorker_run_def run_async_def)

text \<open>
  Claim C5, amended. Unavailability is recognised only for a loop that is absent or closed.
  \<open>AsyncWorker.run\<close> then emits \<open>finished(False, "Async loop not available")\<close> without
  submitting anything; \<open>run_async\<close> returns \<open>None\<close> without an error when the loop is
  absent, and \<open>run_coroutine_threadsafe\<close> raises when it is closed. A loop that is present
  and not closed, whether running or stopped, is submitted to: \<open>run\<close> then emits only what
  the outcome of the submitted coroutine determines (nothing as long as \<open>future.result()\<close>
  has not returned), and \<open>run_async\<close> returns the future.
\<close>

theorem unavailable_only_when_absent_or_closed:
  "(worker_loop w = None \<or> (\<exists>l. worker_loop w = Some l \<and> is_closed l)
      \<longrightarrow> AsyncWorker_run w result = Some [Emit False ''Async loop not available''])
   \<and> (\<forall>l. worker_loop w = Some l \<and> \<not> is_closed l
      \<longrightarrow> AsyncWorker_run w result =
           (case result of
              None \<Rightarrow> None
            | Some (Returns _) \<Rightarrow> Some [Emit True ''Success'']
            | Some (Raises e) \<Rightarrow> Some [Log Error (''AsyncWorker error: '' @ e), Emit False e]))
   \<and> (async_loop s = None \<longrightarrow> run_async c s = Inr (s, None))
   \<and> (\<forall>l. async_loop s = Some l \<and> is_closed l \<longrightarrow> run_async c s = Inl ''Event loop is closed'')
   \<and> (\<forall>l. async_loop s = Some l \<and> \<not> is_closed l
      \<longrightarrow> run_async c s = Inr (emit [RunCoroutineThreadsafe c] s, Some c))"
  by (auto simp: AsyncWorker_run_def run_async_def)

theorem unavailable_only_when_absent_or_closed_witness:
  "worker_loop (example_stopped_worker\<lparr>worker_loop := None\<rparr>) = None
   \<and> AsyncWorker_run (example_stopped_worker\<lparr>worker_loop := None\<rparr>) None =
       Some [Emit False ''Async loop not available'']
   \<and> is_closed (stopped_loop\<lparr>is_closed := True\<rparr>)
   \<and> AsyncWorker_run (example_stopped_worker\<lparr>worker_loop := Some (stopped_loop\<lparr>is_closed := True\<rparr>)\<rparr>) None =
       Some [Emit False ''Async loop not available'']
   \<and> worker_loop example_stopped_worker = Some stopped_loop \<and> \<not> is_closed stopped_loop
   \<and> AsyncWorker_run example_stopped_worker None = None
   \<and> async_loop (example_idle\<lparr>async_loop := None\<rparr>) = None
   \<and> run_async TransportClose (example_idle\<lparr>async_loop := None\<rparr>) =
       Inr (example_idle\<lparr>async_loop := None\<rparr>, None)
   \<and> run_async TransportClose (example_idle\<lparr>async_loop := Some (stopped_loop\<lparr>is_closed := True\<rparr>)\<rparr>) =
       Inl ''Event loop is closed''
   \<and> async_loop example_idle = Some running_loop \<and> \<not> is_closed running_loop
   \<and> run_async TransportClose example_idle =
       Inr (emit [RunCoroutineThreadsafe TransportClose] example_idle, Some TransportClose)"
proof -
  have a: "worker_loop example_stopped_worker = Some stopped_loop" "\<not> is_closed stopped_loop"
    by (simp_all add: example_stopped_worker_def stopped_loop_def)
  have b: "async_loop example_idle = Some running_loop" "\<not> is_closed running_loop"
    by code_simp+
  from unavailable_only_when_absent_or_closed
         [of "example_stopped_worker\<lparr>worker_loop := None\<rparr>" None "example_idle\<lparr>async_loop := None\<rparr>" TransportClose]
       unavailable_only_when_absent_or_closed
         [of "example_stopped_worker\<lparr>worker_loop := Some (stopped_loop\<lparr>is_closed := True\<rparr>)\<rparr>" None
             "example_idle\<lparr>async_loop := Some (stopped_loop\<lparr>is_closed := True\<rparr>)\<rparr>" TransportClose]
       unavailable_only_when_absent_or_closed [of example_stopped_worker None example_idle TransportClose]
       a b
  show ?thesis by simp
qed

section \<open>Reconnecting\<close>

lemma buttons_wired_show_startup_dialog:
  "buttons_wired (show_startup_dialog ds s) = buttons_wired s"
  by (rule buttons_wired_cong)
    (simp_all add: show_startup_dialog_def connect_keeps_buttons emit_def
      split: list.splits option.splits)

lemma connect_appends_effects:
  "\<exists>es. effects (connect ds fresh s) = effects s @ es"
  "\<exists>es. effects (show_connection_dialog ds s) = effects s @ PairedSwitchDialogExec # es"
proof (induction ds fresh s and ds s rule: connect_show_connection_dialog.induct)
  case (1 ds fresh s)
  show ?case
  proof (cases "euid s \<noteq> 0")
    case True
    then show ?thesis by (simp add: connect.simps emit_def)
  next
    case root: False
    show ?thesis
    proof (cases "\<not> truthy (str_or (strip (reconnect_entry s)) (reconnect_address s)) \<and> \<not> fresh")
      case True
      with root 1 obtain es where
        "effects (show_connection_dialog ds s) = effects s @ PairedSwitchDialogExec # es"
        by blast
      with root True show ?thesis by (simp add: connect.simps)
    next
      case False
      with root show ?thesis by (auto simp: connect.simps emit_def Let_def)
    qed
  qed
next
  case (2 s)
  then show ?case by (simp add: show_connection_dialog.simps emit_def)
next
  case (3 dialog ds s)
  show ?case
  proof (cases "accepted dialog")
    case False
    then show ?thesis by (simp add: show_connection_dialog.simps emit_def)
  next
    case acc: True
    show ?thesis
    proof (cases "start_fresh dialog")
      case True
      with acc 3(1) obtain es where
        "effects (connect ds True (emit [PairedSwitchDialogExec] s\<lparr>reconnect_address := None, reconnect_entry := setText []\<rparr>))
           = effects (emit [PairedSwitchDialogExec] s\<lparr>reconnect_address := None, reconnect_entry := setText []\<rparr>) @ es"
        by blast
      with acc True show ?thesis by (simp add: show_connection_dialog.simps emit_def)
    next
      case nf: False
      show ?thesis
      proof (cases "selected_address dialog")
        case None
        with acc nf show ?thesis by (simp add: show_connection_dialog.simps emit_def)
      next
        case (Some a)
        show ?thesis
        proof (cases "a = []")
          case True
          with acc nf Some show ?thesis by (simp add: show_connection_dialog.simps emit_def)
        next
          case False
          with acc nf Some 3(2) obtain es where
            "effects (connect ds False (emit [PairedSwitchDialogExec] s\<lparr>reconnect_address := Some a, reconnect_entry := setText a\<rparr>))
               = effects (emit [PairedSwitchDialogExec] s\<lparr>reconnect_address := Some a, reconnect_entry := setText a\<rparr>) @ es"
            by blast
          with acc nf Some False show ?thesis by (simp add: show_connection_dialog.simps emit_def)
        qed
      qed
    qed
  qed
qed

lemma connect_keeps_last_address:
  "last_connected_address (connect ds fresh s) = last_connected_address s"
  "last_connected_address (show_connection_dialog ds s) = last_connected_address s"
proof (induction ds fresh s and ds s rule: connect_show_connection_dialog.induct)
  case (1 ds fresh s)
  then show ?case by (simp add: connect.simps emit_def Let_def)
next
  case (2 s)
  then show ?case by (simp add: show_connection_dialog.simps emit_def)
next
  case (3 dialog ds s)
  then show ?case
    by (simp add: show_connection_dialog.simps emit_def split: option.splits)
qed

lemma show_connection_dialog_dismissed:
  assumes "ds = [] \<or> (\<exists>d rest. ds = d # rest
             \<and> (\<not> accepted d \<or> (\<not> start_fresh d \<and> \<not> truthy (selected_address d))))"
  shows "show_connection_dialog ds s = emit [PairedSwitchDialogExec] s"
  using assms
  by (auto simp: show_connection_dialog.simps truthy_def split: option.splits)

lemma show_connection_dialog_fresh:
  assumes "accepted d" and "start_fresh d" and "euid s = 0"
  shows "show_connection_dialog (d # rest) s =
     s\<lparr>reconnect_address := None, reconnect_entry := [],
       connect_btn_text := ''Connecting...'', connect_btn_enabled := False,
       status_label := ''Connecting...'',
       connection_worker :=
         Some \<lparr>worker_loop = async_loop s, coro = ConnectAsync ''PRO_CONTROLLER'' None,
               future_set = False, isRunning = True\<rparr>,
       effects := effects s @
         [PairedSwitchDialogExec,
          Log Info ''Starting connection. Start fresh: True, Reconnect addr: None'',
          WorkerStart (ConnectAsync ''PRO_CONTROLLER'' None)]\<rparr>"
proof -
  define t where "t = emit [PairedSwitchDialogExec] s\<lparr>reconnect_address := None, reconnect_entry := setText []\<rparr>"
  have e: "euid t = 0" using assms(3) by (simp add: t_def emit_def)
  have "show_connection_dialog (d # rest) s = connect rest True t"
    using assms by (simp add: show_connection_dialog.simps t_def)
  also have "\<dots> = t\<lparr>connect_btn_text := ''Connecting...'', connect_btn_enabled := False,
       status_label := ''Connecting...'',
       connection_worker :=
         Some \<lparr>worker_loop = async_loop t, coro = ConnectAsync ''PRO_CONTROLLER'' None,
               future_set = False, isRunning = True\<rparr>,
       effects := effects t @
         [Log Info ''Starting connection. Start fresh: True, Reconnect addr: None'',
          WorkerStart (ConnectAsync ''PRO_CONTROLLER'' None)]\<rparr>"
    using connect_starts [OF e, of True rest] by (simp add: str_of_bool_def str_of_def)
  finally show ?thesis by (simp add: t_def emit_def)
qed

lemma show_connection_dialog_selected:
  assumes "accepted d" and "\<not> start_fresh d" and "selected_address d = Some a" and "a \<noteq> []"
    and "euid s = 0"
  shows "show_connection_dialog (d # rest) s =
     s\<lparr>reconnect_address := Some a, reconnect_entry := setText a,
       connect_btn_text := ''Connecting...'', connect_btn_enabled := False,
       status_label := ''Connecting...'',
       connection_worker :=
         Some \<lparr>worker_loop = async_loop s,
               coro = ConnectAsync ''PRO_CONTROLLER''
                        (Some (if strip (setText a) = [] then a else strip (setText a))),
               future_set = False, isRunning = True\<rparr>,
       effects := effects s @
         [PairedSwitchDialogExec,
          Log Info (''Starting connection. Start fresh: False, Reconnect addr: ''
                    @ (if strip (setText a) = [] then a else strip (setText a))),
          WorkerStart (ConnectAsync ''PRO_CONTROLLER''
                         (Some (if strip (setText a) = [] then a else strip (setText a))))]\<rparr>"
proof -
  define t where "t = emit [PairedSwitchDialogExec] s\<lparr>reconnect_address := Some a, reconnect_entry := setText a\<rparr>"
  have e: "euid t = 0" using assms(5) by (simp add: t_def emit_def)
  have f: "reconnect_entry t = setText a" "reconnect_address t = Some a"
    by (simp_all add: t_def emit_def)
  have g: "False \<or> truthy (str_or (strip (reconnect_entry t)) (reconnect_address t))"
    using assms(4) by (simp add: f str_or_def truthy_def)
  have "show_connection_dialog (d # rest) s = connect rest False t"
    using assms by (simp add: show_connection_dialog.simps t_def)
  also have "\<dots> = t\<lparr>connect_btn_text := ''Connecting...'', connect_btn_enabled := False,
       status_label := ''Connecting...'',
       connection_worker :=
         Some \<lparr>worker_loop = async_loop t,
               coro = ConnectAsync ''PRO_CONTROLLER''
                        (Some (if strip (setText a) = [] then a else strip (setText a))),
               future_set = False, isRunning = True\<rparr>,
       effects := effects t @
         [Log Info (''Starting connection. Start fresh: False, Reconnect addr: ''
                    @ (if strip (setText a) = [] then a else strip (setText a))),
          WorkerStart (ConnectAsync ''PRO_CONTROLLER''
                         (Some (if strip (setText a) = [] then a else strip (setText a))))]\<rparr>"
    using connect_starts [OF e g, of rest] by (simp add: f str_of_bool_def str_of_def str_or_def)
  finally show ?thesis by (simp add: t_def emit_def)
qed

lemma show_connection_dialog_no_root:
  assumes "accepted d" and "start_fresh d \<or> truthy (selected_address d)" and "euid s \<noteq> 0"
  shows "connection_worker (show_connection_dialog (d # rest) s) = connection_worker s
     \<and> last (effects (show_connection_dialog (d # rest) s)) =
         MessageBoxCritical ''Error'' ''This application must be run as root!''"
  using assms
  by (auto simp: show_connection_dialog.simps connect.simps emit_def truthy_def split: option.splits)

lemma show_connection_dialog_worker:
  assumes "connection_worker (show_connection_dialog ds s) \<noteq> connection_worker s"
  shows "\<exists>d rest. ds = d # rest \<and> accepted d
     \<and> (if start_fresh d then
          map_option coro (connection_worker (show_connection_dialog ds s)) =
            Some (ConnectAsync ''PRO_CONTROLLER'' None)
        else
          (\<exists>a. selected_address d = Some a \<and> a \<noteq> []
              \<and> map_option coro (connection_worker (show_connection_dialog ds s)) =
                  Some (ConnectAsync ''PRO_CONTROLLER''
                          (Some (if strip (setText a) = [] then a else strip (setText a))))))"
proof (cases ds)
  case Nil
  with assms show ?thesis by (simp add: show_connection_dialog_dismissed emit_def)
next
  case (Cons d rest)
  have acc: "accepted d"
  proof (rule ccontr)
    assume "\<not> accepted d"
    with Cons have "show_connection_dialog ds s = emit [PairedSwitchDialogExec] s"
      by (simp add: show_connection_dialog_dismissed)
    with assms show False by (simp add: emit_def)
  qed
  have chosen: "start_fresh d \<or> truthy (selected_address d)"
  proof (rule ccontr)
    assume "\<not> (start_fresh d \<or> truthy (selected_address d))"
    with Cons have "show_connection_dialog ds s = emit [PairedSwitchDialogExec] s"
      by (simp add: show_connection_dialog_dismissed)
    with assms show False by (simp add: emit_def)
  qed
  have root: "euid s = 0"
  proof (rule ccontr)
    assume "euid s \<noteq> 0"
    from show_connection_dialog_no_root [OF acc chosen this, of rest] assms Cons
    show False by simp
  qed
  show ?thesis
  proof (cases "start_fresh d")
    case True
    with Cons acc show ?thesis by (simp add: show_connection_dialog_fresh [OF acc True root])
  next
    case False
    with chosen obtain a where a: "selected_address d = Some a" "a \<noteq> []"
      by (auto simp: truthy_def split: option.splits)
    from Cons acc False a show ?thesis
      by (simp add: show_connection_dialog_selected [OF acc False a root])
  qed
qed
text \<open>
  Claim C7. When \<open>_last_connected_address\<close> holds a non-empty address,
  \<open>auto_reconnect\<close> copies it into \<open>reconnect_address\<close> and into the entry and calls
  \<open>connect()\<close>: run as root, a worker is started for that address (as \<open>connect()\<close> reads it
  back from the entry, stripped; the address itself when it has no surrounding blanks and
  fits the entry) and the window shows "Connecting...", with no dialog. When no address is
  stored it opens the connection dialog instead and keeps \<open>_last_connected_address\<close>
  empty: a dismissed dialog changes nothing else; an accepted selection is copied into
  \<open>reconnect_address\<close> and the entry and, run as root, a worker is started for it; an
  accepted fresh pairing starts a worker with no address. No worker is ever started for
  an address from anywhere else.
\<close>

theorem auto_reconnect_reuses_last_address:
  "(\<forall>a. last_connected_address s = Some a \<and> a \<noteq> [] \<longrightarrow>
       reconnect_address (auto_reconnect ds s) = Some a
     \<and> reconnect_entry (auto_reconnect ds s) = setText a
     \<and> last_connected_address (auto_reconnect ds s) = Some a
     \<and> PairedSwitchDialogExec \<notin> set (drop (length (effects s)) (effects (auto_reconnect ds s)))
     \<and> (euid s = 0 \<longrightarrow>
          map_option coro (connection_worker (auto_reconnect ds s)) =
            Some (ConnectAsync ''PRO_CONTROLLER'' (Some (if strip (setText a) = [] then a else strip (setText a))))
        \<and> (strip a = a \<and> length a \<le> 32767 \<longrightarrow>
             map_option coro (connection_worker (auto_reconnect ds s)) =
               Some (ConnectAsync ''PRO_CONTROLLER'' (Some a)))
        \<and> status_label (auto_reconnect ds s) = ''Connecting...''
        \<and> workers_started (auto_reconnect ds s) = Suc (workers_started s)))
   \<and> (\<not> truthy (last_connected_address s) \<longrightarrow>
       auto_reconnect ds s =
         show_connection_dialog ds
           (emit [Log Info (''Reconnect called. Last address: '' @ str_of (last_connected_address s)),
                  Log Info (''Current reconnect address: '' @ str_of (reconnect_address s)),
                  Log Info ''No previous address available, showing connection dialog''] s)
     \<and> (\<exists>es. effects (auto_reconnect ds s) =
            effects s @ [Log Info (''Reconnect called. Last address: '' @ str_of (last_connected_address s)),
                         Log Info (''Current reconnect address: '' @ str_of (reconnect_address s)),
                         Log Info ''No previous address available, showing connection dialog'',
                         PairedSwitchDialogExec] @ es)
     \<and> last_connected_address (auto_reconnect ds s) = last_connected_address s
     \<and> (ds = [] \<or> (\<exists>d rest. ds = d # rest
              \<and> (\<not> accepted d \<or> (\<not> start_fresh d \<and> \<not> truthy (selected_address d))))
        \<longrightarrow> auto_reconnect ds s =
              emit [Log Info (''Reconnect called. Last address: '' @ str_of (last_connected_address s)),
                    Log Info (''Current reconnect address: '' @ str_of (reconnect_address s)),
                    Log Info ''No previous address available, showing connection dialog'',
                    PairedSwitchDialogExec] s)
     \<and> (\<forall>d rest a. ds = d # rest \<and> accepted d \<and> \<not> start_fresh d
              \<and> selected_address d = Some a \<and> a \<noteq> [] \<and> euid s = 0
        \<longrightarrow> reconnect_address (auto_reconnect ds s) = Some a
          \<and> reconnect_entry (auto_reconnect ds s) = setText a
          \<and> map_option coro (connection_worker (auto_reconnect ds s)) =
              Some (ConnectAsync ''PRO_CONTROLLER'' (Some (if strip (setText a) = [] then a else strip (setText a))))
          \<and> (strip a = a \<and> length a \<le> 32767 \<longrightarrow>
               map_option coro (connection_worker (auto_reconnect ds s)) =
                 Some (ConnectAsync ''PRO_CONTROLLER'' (Some a)))
          \<and> status_label (auto_reconnect ds s) = ''Connecting...''
          \<and> workers_started (auto_reconnect ds s) = Suc (workers_started s))
     \<and> (\<forall>d rest. ds = d # rest \<and> accepted d \<and> start_fresh d \<and> euid s = 0
        \<longrightarrow> reconnect_address (auto_reconnect ds s) = None
          \<and> reconnect_entry (auto_reconnect ds s) = []
          \<and> map_option coro (connection_worker (auto_reconnect ds s)) =
              Some (ConnectAsync ''PRO_CONTROLLER'' None)
          \<and> status_label (auto_reconnect ds s) = ''Connecting...''
          \<and> workers_started (auto_reconnect ds s) = Suc (workers_started s))
     \<and> (connection_worker (auto_reconnect ds s) \<noteq> connection_worker s \<longrightarrow>
          (\<exists>d rest. ds = d # rest \<and> accepted d
             \<and> (if start_fresh d then
                  map_option coro (connection_worker (auto_reconnect ds s)) =
                    Some (ConnectAsync ''PRO_CONTROLLER'' None)
                else
                  (\<exists>a. selected_address d = Some a \<and> a \<noteq> []
                      \<and> map_option coro (connection_worker (auto_reconnect ds s)) =
                          Some (ConnectAsync ''PRO_CONTROLLER''
                                  (Some (if strip (setText a) = [] then a else strip (setText a)))))))))"
proof -
  have present: "reconnect_address (auto_reconnect ds s) = Some a
     \<and> reconnect_entry (auto_reconnect ds s) = setText a
     \<and> last_connected_address (auto_reconnect ds s) = Some a
     \<and> PairedSwitchDialogExec \<notin> set (drop (length (effects s)) (effects (auto_reconnect ds s)))
     \<and> (euid s = 0 \<longrightarrow>
          map_option coro (connection_worker (auto_reconnect ds s)) =
            Some (ConnectAsync ''PRO_CONTROLLER'' (Some (if strip (setText a) = [] then a else strip (setText a))))
        \<and> (strip a = a \<and> length a \<le> 32767 \<longrightarrow>
             map_option coro (connection_worker (auto_reconnect ds s)) =
               Some (ConnectAsync ''PRO_CONTROLLER'' (Some a)))
        \<and> status_label (auto_reconnect ds s) = ''Connecting...''
        \<and> workers_started (auto_reconnect ds s) = Suc (workers_started s))"
    if l: "last_connected_address s = Some a" and ne: "a \<noteq> []" for a
  proof -
    define t where "t = emit [Log Info (''Reconnecting to '' @ a)]
                (emit [Log Info (''Reconnect called. Last address: '' @ str_of (last_connected_address s)),
                       Log Info (''Current reconnect address: '' @ str_of (reconnect_address s))] s)
                \<lparr>reconnect_address := Some a, reconnect_entry := setText a\<rparr>"
    have eq: "auto_reconnect ds s = connect ds False t"
      using l ne by (simp add: auto_reconnect_def Let_def emit_def t_def)
    have f: "reconnect_entry t = setText a" "reconnect_address t = Some a"
      "last_connected_address t = Some a" "euid t = euid s"
      "effects t = effects s @
         [Log Info (''Reconnect called. Last address: '' @ str_of (last_connected_address s)),
          Log Info (''Current reconnect address: '' @ str_of (reconnect_address s)),
          Log Info (''Reconnecting to '' @ a)]"
      using l by (simp_all add: t_def emit_def)
    show ?thesis
    proof (cases "euid s = 0")
      case False
      then have "euid t \<noteq> 0" by (simp add: f)
      then have "connect ds False t = emit [MessageBoxCritical ''Error'' ''This application must be run as root!''] t"
        by (simp add: connect.simps)
      with False show ?thesis by (simp add: eq emit_def f)
    next
      case True
      then have e: "euid t = 0" by (simp add: f)
      have g: "False \<or> truthy (str_or (strip (reconnect_entry t)) (reconnect_address t))"
        using ne by (simp add: f str_or_def truthy_def)
      from True ne show ?thesis
        by (auto simp: eq connect_starts [OF e g] f str_or_def workers_started_def setText_short)
    qed
  qed
  define u where "u = emit [Log Info (''Reconnect called. Last address: '' @ str_of (last_connected_address s)),
                  Log Info (''Current reconnect address: '' @ str_of (reconnect_address s)),
                  Log Info ''No previous address available, showing connection dialog''] s"
  have u: "effects u = effects s @ [Log Info (''Reconnect called. Last address: '' @ str_of (last_connected_address s)),
                  Log Info (''Current reconnect address: '' @ str_of (reconnect_address s)),
                  Log Info ''No previous address available, showing connection dialog'']"
    "euid u = euid s" "connection_worker u = connection_worker s"
    "last_connected_address u = last_connected_address s"
    "workers_started u = workers_started s"
    by (simp_all add: u_def emit_def workers_started_def)
  have absent: "auto_reconnect ds s = show_connection_dialog ds u"
    if "\<not> truthy (last_connected_address s)"
    using that by (simp add: auto_reconnect_def Let_def emit_def truthy_def u_def split: option.splits)
  have shown: "(\<exists>es. effects (auto_reconnect ds s) =
            effects s @ [Log Info (''Reconnect called. Last address: '' @ str_of (last_connected_address s)),
                         Log Info (''Current reconnect address: '' @ str_of (reconnect_address s)),
                         Log Info ''No previous address available, showing connection dialog'',
                         PairedSwitchDialogExec] @ es)"
    if n: "\<not> truthy (last_connected_address s)"
  proof -
    from connect_appends_effects(2) [of ds u] obtain es where
      "effects (show_connection_dialog ds u) = effects u @ PairedSwitchDialogExec # es" by blast
    then have "effects (auto_reconnect ds s) =
            effects s @ [Log Info (''Reconnect called. Last address: '' @ str_of (last_connected_address s)),
                         Log Info (''Current reconnect address: '' @ str_of (reconnect_address s)),
                         Log Info ''No previous address available, showing connection dialog'',
                         PairedSwitchDialogExec] @ es"
      by (simp add: absent [OF n] u)
    then show ?thesis by blast
  qed
  have kept: "last_connected_address (auto_reconnect ds s) = last_connected_address s"
    if n: "\<not> truthy (last_connected_address s)"
    by (simp add: absent [OF n] connect_keeps_last_address u)
  have dismissed: "auto_reconnect ds s =
              emit [Log Info (''Reconnect called. Last address: '' @ str_of (last_connected_address s)),
                    Log Info (''Current reconnect address: '' @ str_of (reconnect_address s)),
                    Log Info ''No previous address available, showing connection dialog'',
                    PairedSwitchDialogExec] s"
    if n: "\<not> truthy (last_connected_address s)"
      and d: "ds = [] \<or> (\<exists>d rest. ds = d # rest
              \<and> (\<not> accepted d \<or> (\<not> start_fresh d \<and> \<not> truthy (selected_address d))))"
    by (simp add: absent [OF n] show_connection_dialog_dismissed [OF d]) (simp add: u_def emit_def)
  have selected: "reconnect_address (auto_reconnect ds s) = Some a
          \<and> reconnect_entry (auto_reconnect ds s) = setText a
          \<and> map_option coro (connection_worker (auto_reconnect ds s)) =
              Some (ConnectAsync ''PRO_CONTROLLER'' (Some (if strip (setText a) = [] then a else strip (setText a))))
          \<and> (strip a = a \<and> length a \<le> 32767 \<longrightarrow>
               map_option coro (connection_worker (auto_reconnect ds s)) =
                 Some (ConnectAsync ''PRO_CONTROLLER'' (Some a)))
          \<and> status_label (auto_reconnect ds s) = ''Connecting...''
          \<and> workers_started (auto_reconnect ds s) = Suc (workers_started s)"
    if n: "\<not> truthy (last_connected_address s)"
      and d: "ds = d # rest" "accepted d" "\<not> start_fresh d" "selected_address d = Some a" "a \<noteq> []"
      and r: "euid s = 0" for d rest a
  proof -
    from r have r': "euid u = 0" by (simp add: u)
    have "auto_reconnect ds s = show_connection_dialog (d # rest) u"
      using absent [OF n] by (simp only: d(1))
    then show ?thesis
      using d(5) u(5)
      by (auto simp: show_connection_dialog_selected [OF d(2,3,4,5) r'] workers_started_def u(1)
          setText_short)
  qed
  have fresh: "reconnect_address (auto_reconnect ds s) = None
          \<and> reconnect_entry (auto_reconnect ds s) = []
          \<and> map_option coro (connection_worker (auto_reconnect ds s)) =
              Some (ConnectAsync ''PRO_CONTROLLER'' None)
          \<and> status_label (auto_reconnect ds s) = ''Connecting...''
          \<and> workers_started (auto_reconnect ds s) = Suc (workers_started s)"
    if n: "\<not> truthy (last_connected_address s)"
      and d: "ds = d # rest" "accepted d" "start_fresh d"
      and r: "euid s = 0" for d rest
  proof -
    from r have r': "euid u = 0" by (simp add: u)
    have "auto_reconnect ds s = show_connection_dialog (d # rest) u"
      using absent [OF n] by (simp only: d(1))
    then show ?thesis
      by (simp add: show_connection_dialog_fresh [OF d(2,3) r'] workers_started_def u(1))
  qed
  have changed: "\<exists>d rest. ds = d # rest \<and> accepted d
             \<and> (if start_fresh d then
                  map_option coro (connection_worker (auto_reconnect ds s)) =
                    Some (ConnectAsync ''PRO_CONTROLLER'' None)
                else
                  (\<exists>a. selected_address d = Some a \<and> a \<noteq> []
                      \<and> map_option coro (connection_worker (auto_reconnect ds s)) =
                          Some (ConnectAsync ''PRO_CONTROLLER''
                                  (Some (if strip (setText a) = [] then a else strip (setText a))))))"
    if n: "\<not> truthy (last_connected_address s)"
      and w: "connection_worker (auto_reconnect ds s) \<noteq> connection_worker s"
  proof -
    have "connection_worker (show_connection_dialog ds u) \<noteq> connection_worker u"
      using w by (simp add: absent [OF n] u)
    from show_connection_dialog_worker [OF this] show ?thesis
      unfolding absent [OF n] .
  qed
  have second: "auto_reconnect ds s =
         show_connection_dialog ds
           (emit [Log Info (''Reconnect called. Last address: '' @ str_of (last_connected_address s)),
                  Log Info (''Current reconnect address: '' @ str_of (reconnect_address s)),
                  Log Info ''No previous address available, showing connection dialog''] s)
     \<and> (\<exists>es. effects (auto_reconnect ds s) =
            effects s @ [Log Info (''Reconnect called. Last address: '' @ str_of (last_connected_address s)),
                         Log Info (''Current reconnect address: '' @ str_of (reconnect_address s)),
                         Log Info ''No previous address available, showing connection dialog'',
                         PairedSwitchDialogExec] @ es)
     \<and> last_connected_address (auto_reconnect ds s) = last_connected_address s
     \<and> (ds = [] \<or> (\<exists>d rest. ds = d # rest
              \<and> (\<not> accepted d \<or> (\<not> start_fresh d \<and> \<not> truthy (selected_address d))))
        \<longrightarrow> auto_reconnect ds s =
              emit [Log Info (''Reconnect called. Last address: '' @ str_of (last_connected_address s)),
                    Log Info (''Current reconnect address: '' @ str_of (reconnect_address s)),
                    Log Info ''No previous address available, showing connection dialog'',
                    PairedSwitchDialogExec] s)
     \<and> (\<forall>d rest a. ds = d # rest \<and> accepted d \<and> \<not> start_fresh d
              \<and> selected_address d = Some a \<and> a \<noteq> [] \<and> euid s = 0
        \<longrightarrow> reconnect_address (auto_reconnect ds s) = Some a
          \<and> reconnect_entry (auto_reconnect ds s) = setText a
          \<and> map_option coro (connection_worker (auto_reconnect ds s)) =
              Some (ConnectAsync ''PRO_CONTROLLER'' (Some (if strip (setText a) = [] then a else strip (setText a))))
          \<and> (strip a = a \<and> length a \<le> 32767 \<longrightarrow>
               map_option coro (connection_worker (auto_reconnect ds s)) =
                 Some (ConnectAsync ''PRO_CONTROLLER'' (Some a)))
          \<and> status_label (auto_reconnect ds s) = ''Connecting...''
          \<and> workers_started (auto_reconnect ds s) = Suc (workers_started s))
     \<and> (\<forall>d rest. ds = d # rest \<and> accepted d \<and> start_fresh d \<and> euid s = 0
        \<longrightarrow> reconnect_address (auto_reconnect ds s) = None
          \<and> reconnect_entry (auto_reconnect ds s) = []
          \<and> map_option coro (connection_worker (auto_reconnect ds s)) =
              Some (ConnectAsync ''PRO_CONTROLLER'' None)
          \<and> status_label (auto_reconnect ds s) = ''Connecting...''
          \<and> workers_started (auto_reconnect ds s) = Suc (workers_started s))
     \<and> (connection_worker (auto_reconnect ds s) \<noteq> connection_worker s \<longrightarrow>
          (\<exists>d rest. ds = d # rest \<and> accepted d
             \<and> (if start_fresh d then
                  map_option coro (connection_worker (auto_reconnect ds s)) =
                    Some (ConnectAsync ''PRO_CONTROLLER'' None)
                else
                  (\<exists>a. selected_address d = Some a \<and> a \<noteq> []
                      \<and> map_option coro (connection_worker (auto_reconnect ds s)) =
                          Some (ConnectAsync ''PRO_CONTROLLER''
                                  (Some (if strip (setText a) = [] then a else strip (setText a))))))))"
    if n: "\<not> truthy (last_connected_address s)"
  proof (intro conjI)
    show "auto_reconnect ds s =
         show_connection_dialog ds
           (emit [Log Info (''Reconnect called. Last address: '' @ str_of (last_connected_address s)),
                  Log Info (''Current reconnect address: '' @ str_of (reconnect_address s)),
                  Log Info ''No previous address available, showing connection dialog''] s)"
      using absent [OF n] by (simp add: u_def)
    show "(\<exists>es. effects (auto_reconnect ds s) =
            effects s @ [Log Info (''Reconnect called. Last address: '' @ str_of (last_connected_address s)),
                         Log Info (''Current reconnect address: '' @ str_of (reconnect_address s)),
                         Log Info ''No previous address available, showing connection dialog'',
                         PairedSwitchDialogExec] @ es)" by (rule shown [OF n])
    show "last_connected_address (auto_reconnect ds s) = last_connected_address s"
      by (rule kept [OF n])
    show "(ds = [] \<or> (\<exists>d rest. ds = d # rest
              \<and> (\<not> accepted d \<or> (\<not> start_fresh d \<and> \<not> truthy (selected_address d))))
        \<longrightarrow> auto_reconnect ds s =
              emit [Log Info (''Reconnect called. Last address: '' @ str_of (last_connected_address s)),
                    Log Info (''Current reconnect address: '' @ str_of (reconnect_address s)),
                    Log Info ''No previous address available, showing connection dialog'',
                    PairedSwitchDialogExec] s)" using dismissed [OF n] by blast
    show "(\<forall>d rest a. ds = d # rest \<and> accepted d \<and> \<not> start_fresh d
              \<and> selected_address d = Some a \<and> a \<noteq> [] \<and> euid s = 0
        \<longrightarrow> reconnect_address (auto_reconnect ds s) = Some a
          \<and> reconnect_entry (auto_reconnect ds s) = setText a
          \<and> map_option coro (connection_worker (auto_reconnect ds s)) =
              Some (ConnectAsync ''PRO_CONTROLLER'' (Some (if strip (setText a) = [] then a else strip (setText a))))
          \<and> (strip a = a \<and> length a \<le> 32767 \<longrightarrow>
               map_option coro (connection_worker (auto_reconnect ds s)) =
                 Some (ConnectAsync ''PRO_CONTROLLER'' (Some a)))
          \<and> status_label (auto_reconnect ds s) = ''Connecting...''
          \<and> workers_started (auto_reconnect ds s) = Suc (workers_started s))" by (intro allI impI; elim conjE; rule selected [OF n]; assumption)
    show "(\<forall>d rest. ds = d # rest \<and> accepted d \<and> start_fresh d \<and> euid s = 0
        \<longrightarrow> reconnect_address (auto_reconnect ds s) = None
          \<and> reconnect_entry (auto_reconnect ds s) = []
          \<and> map_option coro (connection_worker (auto_reconnect ds s)) =
              Some (ConnectAsync ''PRO_CONTROLLER'' None)
          \<and> status_label (auto_reconnect ds s) = ''Connecting...''
          \<and> workers_started (auto_reconnect ds s) = Suc (workers_started s))" by (intro allI impI; elim conjE; rule fresh [OF n]; assumption)
    show "(connection_worker (auto_reconnect ds s) \<noteq> connection_worker s \<longrightarrow>
          (\<exists>d rest. ds = d # rest \<and> accepted d
             \<and> (if start_fresh d then
                  map_option coro (connection_worker (auto_reconnect ds s)) =
                    Some (ConnectAsync ''PRO_CONTROLLER'' None)
                else
                  (\<exists>a. selected_address d = Some a \<and> a \<noteq> []
                      \<and> map_option coro (connection_worker (auto_reconnect ds s)) =
                          Some (ConnectAsync ''PRO_CONTROLLER''
                                  (Some (if strip (setText a) = [] then a else strip (setText a))))))))" by (intro impI; rule changed [OF n]; assumption)
  qed
  show ?thesis
    apply (rule conjI)
     apply (intro allI impI, elim conjE, rule present, assumption, assumption)
    apply (intro impI, rule second, assumption)
    done
qed

theorem auto_reconnect_reuses_last_address_witness:
  "last_connected_address example_lost = Some ''AA:BB:CC:DD:EE:FF''
   \<and> ''AA:BB:CC:DD:EE:FF'' \<noteq> [] \<and> euid example_lost = 0
   \<and> reconnect_address example_lost = None
   \<and> reconnect_address (auto_reconnect [] example_lost) = Some ''AA:BB:CC:DD:EE:FF''
   \<and> map_option coro (connection_worker (auto_reconnect [] example_lost)) =
       Some (ConnectAsync ''PRO_CONTROLLER'' (Some ''AA:BB:CC:DD:EE:FF''))
   \<and> status_label (auto_reconnect [] example_lost) = ''Connecting...''
   \<and> \<not> truthy (last_connected_address example_lost_unpaired)
   \<and> euid example_lost_unpaired = 0
   \<and> reconnect_address (auto_reconnect [select_dialog ''11:22:33:44:55:66''] example_lost_unpaired) =
       Some ''11:22:33:44:55:66''
   \<and> map_option coro
        (connection_worker (auto_reconnect [select_dialog ''11:22:33:44:55:66''] example_lost_unpaired)) =
       Some (ConnectAsync ''PRO_CONTROLLER'' (Some ''11:22:33:44:55:66''))
   \<and> workers_started (auto_reconnect [select_dialog ''11:22:33:44:55:66''] example_lost_unpaired) =
       Suc (workers_started example_lost_unpaired)
   \<and> map_option coro (connection_worker (auto_reconnect [fresh_dialog] example_lost_unpaired)) =
       Some (ConnectAsync ''PRO_CONTROLLER'' None)
   \<and> auto_reconnect [] example_lost_unpaired =
       emit [Log Info (''Reconnect called. Last address: ''
                       @ str_of (last_connected_address example_lost_unpaired)),
             Log Info (''Current reconnect address: ''
                       @ str_of (reconnect_address example_lost_unpaired)),
             Log Info ''No previous address available, showing connection dialog'',
             PairedSwitchDialogExec] example_lost_unpaired"
proof -
  let ?A = "''AA:BB:CC:DD:EE:FF''" and ?B = "''11:22:33:44:55:66''"
  have l: "last_connected_address example_lost = Some ?A" by code_simp
  have ne: "?A \<noteq> []" by simp
  have e: "euid example_lost = 0" by code_simp
  have r: "reconnect_address example_lost = None" by code_simp
  have sa: "strip ?A = ?A \<and> length ?A \<le> 32767" by (simp add: strip_def isspace_def)
  note present = auto_reconnect_reuses_last_address [of example_lost "[]",
      THEN conjunct1, THEN spec, THEN mp, OF conjI [OF l ne]]
  have p1: "reconnect_address (auto_reconnect [] example_lost) = Some ?A"
    using present by (rule conjunct1)
  note root = present [THEN conjunct2, THEN conjunct2, THEN conjunct2, THEN conjunct2, THEN mp, OF e]
  have p2: "map_option coro (connection_worker (auto_reconnect [] example_lost)) =
       Some (ConnectAsync ''PRO_CONTROLLER'' (Some ?A))"
    using root [THEN conjunct2, THEN conjunct1, THEN mp, OF sa] .
  have p3: "status_label (auto_reconnect [] example_lost) = ''Connecting...''"
    using root [THEN conjunct2, THEN conjunct2, THEN conjunct1] .
  have n: "\<not> truthy (last_connected_address example_lost_unpaired)" by code_simp
  have e': "euid example_lost_unpaired = 0" by code_simp
  have sb: "strip ?B = ?B \<and> length ?B \<le> 32767" by (simp add: strip_def isspace_def)
  have h: "[select_dialog ?B] = select_dialog ?B # [] \<and> accepted (select_dialog ?B)
         \<and> \<not> start_fresh (select_dialog ?B) \<and> selected_address (select_dialog ?B) = Some ?B
         \<and> ?B \<noteq> [] \<and> euid example_lost_unpaired = 0"
    using e' by (simp add: select_dialog_def)
  note selected = auto_reconnect_reuses_last_address
      [of example_lost_unpaired "[select_dialog ?B]", THEN conjunct2, THEN mp, OF n,
       THEN conjunct2, THEN conjunct2, THEN conjunct2, THEN conjunct2, THEN conjunct1,
       THEN spec, THEN spec, THEN spec, THEN mp, OF h]
  have q1: "reconnect_address (auto_reconnect [select_dialog ?B] example_lost_unpaired) = Some ?B"
    using selected by (rule conjunct1)
  have q2: "map_option coro
        (connection_worker (auto_reconnect [select_dialog ?B] example_lost_unpaired)) =
       Some (ConnectAsync ''PRO_CONTROLLER'' (Some ?B))"
    using selected [THEN conjunct2, THEN conjunct2, THEN conjunct2, THEN conjunct1, THEN mp, OF sb] .
  have q3: "workers_started (auto_reconnect [select_dialog ?B] example_lost_unpaired) =
       Suc (workers_started example_lost_unpaired)"
    using selected [THEN conjunct2, THEN conjunct2, THEN conjunct2, THEN conjunct2, THEN conjunct2] .
  have h': "[fresh_dialog] = fresh_dialog # [] \<and> accepted fresh_dialog \<and> start_fresh fresh_dialog
         \<and> euid example_lost_unpaired = 0"
    using e' by (simp add: fresh_dialog_def)
  note fresh = auto_reconnect_reuses_last_address
      [of example_lost_unpaired "[fresh_dialog]", THEN conjunct2, THEN mp, OF n,
       THEN conjunct2, THEN conjunct2, THEN conjunct2, THEN conjunct2, THEN conjunct2, THEN conjunct1,
       THEN spec, THEN spec, THEN mp, OF h']
  have f1: "map_option coro (connection_worker (auto_reconnect [fresh_dialog] example_lost_unpaired)) =
       Some (ConnectAsync ''PRO_CONTROLLER'' None)"
    using fresh [THEN conjunct2, THEN conjunct2, THEN conjunct1] .
  have d1: "auto_reconnect [] example_lost_unpaired =
       emit [Log Info (''Reconnect called. Last address: ''
                       @ str_of (last_connected_address example_lost_unpaired)),
             Log Info (''Current reconnect address: ''
                       @ str_of (reconnect_address example_lost_unpaired)),
             Log Info ''No previous address available, showing connection dialog'',
             PairedSwitchDialogExec] example_lost_unpaired"
    using auto_reconnect_reuses_last_address
      [of example_lost_unpaired "[]", THEN conjunct2, THEN mp, OF n,
       THEN conjunct2, THEN conjunct2, THEN conjunct2, THEN conjunct1, THEN mp, OF disjI1 [OF refl]] .
  from l ne e r p1 p2 p3 n e' q1 q2 q3 f1 d1 show ?thesis by (intro conjI)
qed

section \<open>Recording the peer address\<close>

text \<open>
  Claim C10, as stated: a fresh pairing whose peer address cannot be read leaves no address
  for later reconnection. The lost example session still has its old address on record;
  its user pairs a new console, the handshake ends without a readable peer address, and
  the window shows "Connected to: Unknown" while the old address stays recorded. When this
  connection is lost in turn, \<open>auto_reconnect\<close> dials the old address.
\<close>

theorem fresh_pairing_keeps_old_address_counterexample:
  "last_connected_address example_lost = Some ''AA:BB:CC:DD:EE:FF''
   \<and> reconnect_address (toggle_connection [fresh_dialog] example_lost) = None
   \<and> map_option coro (connection_worker (toggle_connection [fresh_dialog] example_lost)) =
       Some (ConnectAsync ''PRO_CONTROLLER'' None)
   \<and> connected example_repaired
   \<and> map_option itr_sock (transport example_repaired) = Some None
   \<and> connection_info example_repaired = ''Connected to: Unknown''
   \<and> last_connected_address example_repaired = Some ''AA:BB:CC:DD:EE:FF''
   \<and> map_option coro
        (connection_worker (auto_reconnect [] (check_connection_status True example_repaired))) =
       Some (ConnectAsync ''PRO_CONTROLLER'' (Some ''AA:BB:CC:DD:EE:FF''))"
  by code_simp

text \<open>
  Claim C10, amended. On a successful completion \<open>on_connection_finished\<close> stores the
  address of the peer read from the transport's socket; when that cannot be read it stores
  \<open>reconnect_address\<close> if there is one; when neither is at hand
  \<open>_last_connected_address\<close> keeps its previous value, whatever that is: nothing if
  nothing was recorded, the address of the earlier connection if one was. The placeholder
  "Unknown" is never stored. A failed completion leaves the field alone.
\<close>

theorem on_connection_finished_records_address:
  "(\<forall>t a psm. transport s = Some t \<and> itr_sock t = Some (Returns (Some (a, psm))) \<and> a \<noteq> ''Unknown''
       \<longrightarrow> last_connected_address (on_connection_finished True message s) = Some a)
   \<and> ((\<forall>t a psm. transport s = Some t \<longrightarrow> itr_sock t \<noteq> Some (Returns (Some (a, psm))))
       \<longrightarrow> (truthy (reconnect_address s) \<and> reconnect_address s \<noteq> Some ''Unknown''
              \<longrightarrow> last_connected_address (on_connection_finished True message s) = reconnect_address s)
         \<and> (\<not> truthy (reconnect_address s)
              \<longrightarrow> last_connected_address (on_connection_finished True message s) =
                    last_connected_address s))
   \<and> (last_connected_address (on_connection_finished True message s) = Some ''Unknown''
       \<longrightarrow> last_connected_address s = Some ''Unknown'')
   \<and> (last_connected_address (on_connection_finished True message s) \<noteq> last_connected_address s
       \<longrightarrow> (\<exists>t a psm. transport s = Some t \<and> itr_sock t = Some (Returns (Some (a, psm)))
                     \<and> last_connected_address (on_connection_finished True message s) = Some a)
           \<or> last_connected_address (on_connection_finished True message s) = reconnect_address s)
   \<and> last_connected_address (on_connection_finished False message s) = last_connected_address s"
  by (auto simp: on_connection_finished_def Let_def emit_def update_amiibo_button_def
      reset_connection_ui_def or_Unknown_def truthy_def
      split: option.splits outcome.splits prod.splits if_splits)

theorem on_connection_finished_records_address_witness:
  "transport example_handshake =
     Some \<lparr>is_closing = Returns False, itr_sock = Some (Returns (Some (''AA:BB:CC:DD:EE:FF'', 19)))\<rparr>
   \<and> ''AA:BB:CC:DD:EE:FF'' \<noteq> ''Unknown''
   \<and> last_connected_address example_handshake = None
   \<and> last_connected_address (on_connection_finished True ''Success'' example_handshake) =
       Some ''AA:BB:CC:DD:EE:FF''
   \<and> transport example_blind_handshake =
       Some \<lparr>is_closing = Returns False, itr_sock = Some (Raises ''not connected'')\<rparr>
   \<and> reconnect_address example_blind_handshake = Some ''AA:BB:CC:DD:EE:FF''
   \<and> last_connected_address (on_connection_finished True ''Success'' example_blind_handshake) =
       Some ''AA:BB:CC:DD:EE:FF''
   \<and> transport example_fresh_handshake = Some \<lparr>is_closing = Returns False, itr_sock = None\<rparr>
   \<and> \<not> truthy (reconnect_address example_fresh_handshake)
   \<and> last_connected_address example_fresh_handshake = None
   \<and> last_connected_address (on_connection_finished True ''Success'' example_fresh_handshake) = None
   \<and> transport example_repair_handshake = Some \<lparr>is_closing = Returns False, itr_sock = None\<rparr>
   \<and> \<not> truthy (reconnect_address example_repair_handshake)
   \<and> last_connected_address example_repair_handshake = Some ''AA:BB:CC:DD:EE:FF''
   \<and> last_connected_address (on_connection_finished True ''Success'' example_repair_handshake) =
       Some ''AA:BB:CC:DD:EE:FF''"
proof -
  let ?peer = "\<lparr>is_closing = Returns False,
                itr_sock = Some (Returns (Some (''AA:BB:CC:DD:EE:FF'', 19::nat)))\<rparr>"
  have t1: "transport example_handshake = Some ?peer" by code_simp
  have n1: "''AA:BB:CC:DD:EE:FF'' \<noteq> ''Unknown''" by simp
  have l1: "last_connected_address example_handshake = None" by code_simp
  have i1: "itr_sock ?peer = Some (Returns (Some (''AA:BB:CC:DD:EE:FF'', 19)))" by simp
  note c1 = on_connection_finished_records_address [of example_handshake "''Success''",
      THEN conjunct1, rule_format, of ?peer "''AA:BB:CC:DD:EE:FF''" 19]
  have a1: "last_connected_address (on_connection_finished True ''Success'' example_handshake) =
       Some ''AA:BB:CC:DD:EE:FF''"
    by (rule c1) (intro conjI t1 i1 n1)
  have t2: "transport example_blind_handshake =
       Some \<lparr>is_closing = Returns False, itr_sock = Some (Raises ''not connected'')\<rparr>" by code_simp
  have r2: "reconnect_address example_blind_handshake = Some ''AA:BB:CC:DD:EE:FF''" by code_simp
  have g2: "truthy (reconnect_address example_blind_handshake)" by code_simp
  have p2: "\<forall>t a psm. transport example_blind_handshake = Some t \<longrightarrow>
              itr_sock t \<noteq> Some (Returns (Some (a, psm)))"
    by (simp add: t2)
  note c2 = on_connection_finished_records_address [of example_blind_handshake "''Success''",
      THEN conjunct2, THEN conjunct1, THEN mp, OF p2, THEN conjunct1]
  have a2: "last_connected_address (on_connection_finished True ''Success'' example_blind_handshake) =
       Some ''AA:BB:CC:DD:EE:FF''"
    using c2 g2 by (simp add: r2)
  have t3: "transport example_fresh_handshake = Some \<lparr>is_closing = Returns False, itr_sock = None\<rparr>"
    by code_simp
  have g3: "\<not> truthy (reconnect_address example_fresh_handshake)" by code_simp
  have l3: "last_connected_address example_fresh_handshake = None" by code_simp
  have p3: "\<forall>t a psm. transport example_fresh_handshake = Some t \<longrightarrow>
              itr_sock t \<noteq> Some (Returns (Some (a, psm)))"
    by (simp add: t3)
  note c3 = on_connection_finished_records_address [of example_fresh_handshake "''Success''",
      THEN conjunct2, THEN conjunct1, THEN mp, OF p3, THEN conjunct2, THEN mp, OF g3]
  have a3: "last_connected_address (on_connection_finished True ''Success'' example_fresh_handshake) = None"
    using c3 by (simp add: l3)
  have t4: "transport example_repair_handshake = Some \<lparr>is_closing = Returns False, itr_sock = None\<rparr>"
    by code_simp
  have g4: "\<not> truthy (reconnect_address example_repair_handshake)" by code_simp
  have l4: "last_connected_address example_repair_handshake = Some ''AA:BB:CC:DD:EE:FF''" by code_simp
  have p4: "\<forall>t a psm. transport example_repair_handshake = Some t \<longrightarrow>
              itr_sock t \<noteq> Some (Returns (Some (a, psm)))"
    by (simp add: t4)
  note c4 = on_connection_finished_records_address [of example_repair_handshake "''Success''",
      THEN conjunct2, THEN conjunct1, THEN mp, OF p4, THEN conjunct2, THEN mp, OF g4]
  have a4: "last_connected_address (on_connection_finished True ''Success'' example_repair_handshake) =
       Some ''AA:BB:CC:DD:EE:FF''"
    using c4 by (simp add: l4)
  from t1 n1 l1 a1 t2 r2 a2 t3 g3 l3 a3 t4 g4 l4 a4 show ?thesis by (intro conjI)
qed

end
